theory Spec2Isabelle
  imports Main
begin

section \<open>Notebook execution service\<close>

text \<open>
  A shallow embedding of \<^verbatim>\<open>NotebookExecutionService\<close>
  (\<^verbatim>\<open>src/vs/workbench/contrib/notebook/browser/notebookExecutionServiceImpl.ts\<close>).
  The service owns no data of its own: every line of it is a call to one of its
  collaborators (log, workspace trust, command service, kernel registry, execution-state
  registry, the kernel itself). The embedding therefore has three parts:
  \<^item> the \<^emph>\<open>world\<close>: the mutable state the collaborators own;
  \<^item> the \<^emph>\<open>collaborators\<close>: what the asynchronous calls do to the world, taken as
    parameters, since no code of theirs is part of the service; each may reject;
  \<^item> the \<^emph>\<open>events\<close>: the calls the service makes, in the order it makes them.
  An asynchronous method is a function from the world to the way its promise settles
  (\<open>Inl\<close> a rejection, \<open>Inr\<close> the value), the events it produced and the world it left.

  What the embedding takes for granted: an iterable is the list of its elements, and
  \<^verbatim>\<open>Array.from\<close> is the event of reading it; the trust request answers a boolean
  (\<^verbatim>\<open>undefined\<close> counts as false in the source); the synchronous collaborators (log,
  the two registries) return and do not throw.
\<close>

subsection \<open>Data\<close>

type_synonym uri = string
type_synonym cell_handle = int

text \<open>
  A cell's \<^verbatim>\<open>uri\<close> names its notebook and its handle; the execution-state registry
  is keyed by that pair.
\<close>

type_synonym cell_uri = "uri \<times> cell_handle"

datatype CellKind = Markup | Code

record INotebookTextModel =
  uri :: uri

record NotebookCellTextModel =
  cell_uri :: cell_uri
  handle :: cell_handle
  cellKind :: CellKind
  language :: string

record INotebookKernel =
  kernel_id :: string
  supportedLanguages :: "string list"

datatype ISourceAction = SourceAction string

datatype command_id = SELECT_KERNEL_ID

text \<open>
  Modelled from the spec: the declaration of \<^verbatim>\<open>NotebookCellExecutionState\<close> is not
  among the sources. The spec gives an execution record the states
  \<open>Unconfirmed \<rightarrow> Confirmed \<rightarrow> Completed\<close>, the last one terminal.
\<close>

datatype NotebookCellExecutionState = Unconfirmed | Confirmed | Completed

text \<open>The argument of \<^verbatim>\<open>complete\<close>, an object literal: its properties, \<open>[]\<close> for \<^verbatim>\<open>{}\<close>.\<close>

type_synonym completion = "(string \<times> string) list"

text \<open>
  Modelled from the spec: the class of execution records is not among the sources. A
  record is created per (notebook, cell handle, kernel id) and carries its state; the
  result is what it was completed with.
\<close>

record CellExecution =
  controllerId :: string
  notebook :: uri
  cellHandle :: cell_handle
  state :: NotebookCellExecutionState
  result :: "completion option"

text \<open>
  Execution records are objects: the service keeps references to the ones it created and
  reads their state after the kernel has run, so the records live in a store, and the
  registry maps a cell to the reference of its record.
\<close>

type_synonym exec_ref = nat

record world =
  selectedOrSuggested :: "uri \<rightharpoonup> INotebookKernel"
  matchingKernels :: "uri \<Rightarrow> INotebookKernel list"
  sourceActions :: "ISourceAction list"
  executions :: "cell_uri \<rightharpoonup> exec_ref"
  store :: "exec_ref \<Rightarrow> CellExecution"
  allocated :: nat

datatype error = Rejected string

text \<open>
  The asynchronous collaborators. Each takes the world at the call and gives the way its
  promise settles and the world at that moment: whatever happened while the service was
  suspended is part of the world it resumes in.
\<close>

record collaborators =
  requestWorkspaceTrust :: "string \<Rightarrow> world \<Rightarrow> (error + bool) \<times> world"
  runAction :: "ISourceAction \<Rightarrow> world \<Rightarrow> (error + unit) \<times> world"
  executeCommand :: "command_id \<Rightarrow> world \<Rightarrow> (error + unit) \<times> world"
  executeNotebookCellsRequest ::
    "INotebookKernel \<Rightarrow> uri \<Rightarrow> cell_handle list \<Rightarrow> world \<Rightarrow> (error + unit) \<times> world"
  cancelNotebookCellExecution ::
    "INotebookKernel \<Rightarrow> uri \<Rightarrow> cell_handle list \<Rightarrow> world \<Rightarrow> (error + unit) \<times> world"

datatype event =
    ArrayFrom "cell_handle list"
  | Debug string "cell_handle list"
  | RequestWorkspaceTrust string
  | GetSelectedOrSuggestedKernel uri
  | GetMatchingKernel uri
  | GetSourceActions
  | RunAction ISourceAction
  | ExecuteCommand command_id
  | GetCellExecution cell_uri
  | SelectKernelForNotebook INotebookKernel uri
  | CreateCellExecution string uri cell_handle
  | ExecuteNotebookCellsRequest INotebookKernel uri "cell_handle list"
  | Complete exec_ref completion
  | CancelNotebookCellExecution INotebookKernel uri "cell_handle list"

type_synonym 'a task = "world \<Rightarrow> (error + 'a) \<times> event list \<times> world"

subsection \<open>Sequencing\<close>

text \<open>A statement that neither calls out nor fails.\<close>

definition ret :: "'a \<Rightarrow> 'a task" where
  "ret a w = (Inr a, [], w)"

text \<open>
  One statement after another: a rejection (or exception) of the first ends the method,
  since the service has no \<^verbatim>\<open>try\<close>.
\<close>

definition then_do :: "'a task \<Rightarrow> ('a \<Rightarrow> 'b task) \<Rightarrow> 'b task" where
  "then_do m f w =
     (case m w of
        (Inl e, ev, w') \<Rightarrow> (Inl e, ev, w')
      | (Inr a, ev, w') \<Rightarrow> (case f a w' of (r, ev', w'') \<Rightarrow> (r, ev @ ev', w'')))"

text \<open>\<^verbatim>\<open>await call\<close>: the call is made (one event) and the method resumes when it settles.\<close>

definition await :: "event \<Rightarrow> (world \<Rightarrow> (error + 'a) \<times> world) \<Rightarrow> 'a task" where
  "await ev call w = (case call w of (r, w') \<Rightarrow> (r, [ev], w'))"

subsection \<open>The synchronous collaborators\<close>

definition arrayFrom :: "cell_handle list \<Rightarrow> unit task" where
  "arrayFrom hs w = (Inr (), [ArrayFrom hs], w)"

definition debug :: "string \<Rightarrow> cell_handle list \<Rightarrow> unit task" where
  "debug msg hs w = (Inr (), [Debug msg hs], w)"

text \<open>
  Modelled from the spec: the kernel registry (\<^verbatim>\<open>INotebookKernelService\<close>) is not among
  the sources. It exposes the kernel selected or suggested for a notebook (zero or one),
  the candidate kernels matching a notebook, the discovery source actions, and binding a
  kernel to a notebook, after which that kernel is the selected one.
\<close>

definition getSelectedOrSuggestedKernel :: "INotebookTextModel \<Rightarrow> INotebookKernel option task" where
  "getSelectedOrSuggestedKernel nb w =
     (Inr (selectedOrSuggested w (uri nb)), [GetSelectedOrSuggestedKernel (uri nb)], w)"

definition getMatchingKernel :: "INotebookTextModel \<Rightarrow> INotebookKernel list task" where
  "getMatchingKernel nb w = (Inr (matchingKernels w (uri nb)), [GetMatchingKernel (uri nb)], w)"

definition getSourceActions :: "ISourceAction list task" where
  "getSourceActions w = (Inr (sourceActions w), [GetSourceActions], w)"

definition selectKernelForNotebook :: "INotebookKernel \<Rightarrow> INotebookTextModel \<Rightarrow> unit task" where
  "selectKernelForNotebook kernel' nb w =
     (Inr (), [SelectKernelForNotebook kernel' (uri nb)],
      w\<lparr>selectedOrSuggested := (selectedOrSuggested w)(uri nb \<mapsto> kernel')\<rparr>)"

text \<open>
  Modelled from the spec: the execution-state registry
  (\<^verbatim>\<open>INotebookExecutionStateService\<close>) is not among the sources. It tracks one live
  execution record per (notebook, cell) and exposes lookup, creation and completion. A
  record is live until it is \<open>Completed\<close>; lookup gives the live record of a cell; since
  a cell has at most one live record, creation gives the live record where there is one
  and a fresh \<open>Unconfirmed\<close> one otherwise; completion makes the record \<open>Completed\<close> with
  the given result.
\<close>

definition liveExecution :: "world \<Rightarrow> cell_uri \<Rightarrow> exec_ref option" where
  "liveExecution w u =
     (case executions w u of
        None \<Rightarrow> None
      | Some r \<Rightarrow> if state (store w r) = Completed then None else Some r)"

definition getCellExecution :: "cell_uri \<Rightarrow> exec_ref option task" where
  "getCellExecution u w = (Inr (liveExecution w u), [GetCellExecution u], w)"

definition newExecution :: "string \<Rightarrow> uri \<Rightarrow> cell_handle \<Rightarrow> CellExecution" where
  "newExecution kid nbu h =
     \<lparr>controllerId = kid, notebook = nbu, cellHandle = h, state = Unconfirmed, result = None\<rparr>"

definition createCellExecution :: "string \<Rightarrow> uri \<Rightarrow> cell_handle \<Rightarrow> exec_ref task" where
  "createCellExecution kid nbu h w =
     (case liveExecution w (nbu, h) of
        Some r \<Rightarrow> (Inr r, [CreateCellExecution kid nbu h], w)
      | None \<Rightarrow>
          (let r = allocated w in
           (Inr r, [CreateCellExecution kid nbu h],
            w\<lparr>executions := (executions w)((nbu, h) \<mapsto> r),
              store := (store w)(r := newExecution kid nbu h),
              allocated := Suc r\<rparr>)))"

definition completed :: "completion \<Rightarrow> CellExecution \<Rightarrow> CellExecution" where
  "completed res x = x\<lparr>state := Completed, result := Some res\<rparr>"

definition complete :: "exec_ref \<Rightarrow> completion \<Rightarrow> unit task" where
  "complete r res w =
     (Inr (), [Complete r res], w\<lparr>store := (store w)(r := completed res (store w r))\<rparr>)"

text \<open>Reading \<^verbatim>\<open>exe.state\<close> through a reference the service holds.\<close>

definition exe_state :: "world \<Rightarrow> exec_ref \<Rightarrow> NotebookCellExecutionState" where
  "exe_state w r = state (store w r)"

subsection \<open>The service\<close>

definition notebookRunTrust :: string where
  "notebookRunTrust = ''Executing a notebook cell will run code from this workspace.''"

text \<open>\<^verbatim>\<open>resolveSourceActions\<close> (lines 81-94).\<close>

definition resolveSourceActions ::
  "collaborators \<Rightarrow> INotebookTextModel \<Rightarrow> INotebookKernel option task" where
  "resolveSourceActions c nb =
     then_do (getMatchingKernel nb) (\<lambda>info_all.
       if length info_all = 0 then
         then_do getSourceActions (\<lambda>actions.
           if length actions = 1 then
             then_do (await (RunAction (actions ! 0)) (runAction c (actions ! 0))) (\<lambda>_.
               getSelectedOrSuggestedKernel nb)
           else ret None)
       else ret None)"

text \<open>
  Lines 41-49 of \<^verbatim>\<open>executeNotebookCells\<close>: the variable \<^verbatim>\<open>kernel\<close> after its three
  assignments.
\<close>

definition resolveKernel ::
  "collaborators \<Rightarrow> INotebookTextModel \<Rightarrow> INotebookKernel option task" where
  "resolveKernel c nb =
     then_do (getSelectedOrSuggestedKernel nb) (\<lambda>kernel'.
     then_do (if kernel' = None then resolveSourceActions c nb else ret kernel') (\<lambda>kernel'.
       if kernel' = None then
         then_do (await (ExecuteCommand SELECT_KERNEL_ID) (executeCommand c SELECT_KERNEL_ID)) (\<lambda>_.
           getSelectedOrSuggestedKernel nb)
       else ret kernel'))"

text \<open>
  Lines 55-65: the loop over \<^verbatim>\<open>cellsArr\<close> that fills \<^verbatim>\<open>executeCells\<close>; the third
  argument is \<^verbatim>\<open>executeCells\<close> so far.
\<close>

primrec eligibleLoop ::
  "INotebookKernel \<Rightarrow> NotebookCellTextModel list \<Rightarrow> NotebookCellTextModel list \<Rightarrow>
   NotebookCellTextModel list task" where
  "eligibleLoop kernel' [] executeCells = ret executeCells"
| "eligibleLoop kernel' (cell # rest) executeCells =
     then_do (getCellExecution (cell_uri cell)) (\<lambda>cellExe.
       if cellKind cell \<noteq> Code \<or> cellExe \<noteq> None then eligibleLoop kernel' rest executeCells
       else if language cell \<notin> set (supportedLanguages kernel') then
         eligibleLoop kernel' rest executeCells
       else eligibleLoop kernel' rest (executeCells @ [cell]))"

text \<open>Line 70: \<^verbatim>\<open>executeCells.map(c => createCellExecution(kernel.id, notebook.uri, c.handle))\<close>.\<close>

primrec createExecutions ::
  "INotebookKernel \<Rightarrow> INotebookTextModel \<Rightarrow> NotebookCellTextModel list \<Rightarrow> exec_ref list task" where
  "createExecutions kernel' nb [] = ret []"
| "createExecutions kernel' nb (cell # rest) =
     then_do (createCellExecution (kernel_id kernel') (uri nb) (handle cell)) (\<lambda>exe.
     then_do (createExecutions kernel' nb rest) (\<lambda>exes. ret (exe # exes)))"

text \<open>Line 76: \<^verbatim>\<open>unconfirmed.forEach(exe => exe.complete({}))\<close>.\<close>

primrec completeAll :: "exec_ref list \<Rightarrow> unit task" where
  "completeAll [] = ret ()"
| "completeAll (exe # rest) = then_do (complete exe []) (\<lambda>_. completeAll rest)"

text \<open>Lines 73-77: the records still unconfirmed once the kernel has returned.\<close>

definition completeUnconfirmed :: "exec_ref list \<Rightarrow> unit task" where
  "completeUnconfirmed exes w =
     (let unconfirmed = filter (\<lambda>exe. exe_state w exe = Unconfirmed) exes in
      if length unconfirmed \<noteq> 0 then
        then_do
          (debug ''NotebookExecutionService#executeNotebookCells completing unconfirmed executions''
             (map (\<lambda>exe. cellHandle (store w exe)) unconfirmed)) (\<lambda>_.
          completeAll unconfirmed) w
      else ret () w)"

text \<open>Lines 67-78: what is done with \<^verbatim>\<open>executeCells\<close> once the loop has filled it.\<close>

definition dispatch ::
  "collaborators \<Rightarrow> INotebookTextModel \<Rightarrow> INotebookKernel \<Rightarrow> NotebookCellTextModel list \<Rightarrow>
   unit task" where
  "dispatch c nb kernel' executeCells =
     (if length executeCells > 0 then
        then_do (selectKernelForNotebook kernel' nb) (\<lambda>_.
        then_do (createExecutions kernel' nb executeCells) (\<lambda>exes.
        then_do
          (await (ExecuteNotebookCellsRequest kernel' (uri nb) (map handle executeCells))
             (executeNotebookCellsRequest c kernel' (uri nb) (map handle executeCells))) (\<lambda>_.
        completeUnconfirmed exes)))
      else ret ())"

text \<open>\<^verbatim>\<open>executeNotebookCells\<close> (lines 32-79); the iterable \<^verbatim>\<open>cells\<close> is a list.\<close>

definition executeNotebookCells ::
  "collaborators \<Rightarrow> INotebookTextModel \<Rightarrow> NotebookCellTextModel list \<Rightarrow> unit task" where
  "executeNotebookCells c nb cells =
     then_do (arrayFrom (map handle cells)) (\<lambda>_.
     let cellsArr = cells in
     then_do (debug ''NotebookExecutionService#executeNotebookCells'' (map handle cellsArr)) (\<lambda>_.
     then_do
       (await (RequestWorkspaceTrust notebookRunTrust) (requestWorkspaceTrust c notebookRunTrust))
       (\<lambda>trust.
       if \<not> trust then ret ()
       else
         then_do (resolveKernel c nb) (\<lambda>kernel'.
           case kernel' of
             None \<Rightarrow> ret ()
           | Some kernel' \<Rightarrow>
               then_do (eligibleLoop kernel' cellsArr []) (\<lambda>executeCells.
                 dispatch c nb kernel' executeCells)))))"

text \<open>\<^verbatim>\<open>cancelNotebookCellHandles\<close> (lines 96-104).\<close>

definition cancelNotebookCellHandles ::
  "collaborators \<Rightarrow> INotebookTextModel \<Rightarrow> cell_handle list \<Rightarrow> unit task" where
  "cancelNotebookCellHandles c nb cells =
     then_do (arrayFrom cells) (\<lambda>_.
     let cellsArr = cells in
     then_do (debug ''NotebookExecutionService#cancelNotebookCellHandles'' cellsArr) (\<lambda>_.
     then_do (getSelectedOrSuggestedKernel nb) (\<lambda>kernel'.
       case kernel' of
         Some kernel' \<Rightarrow>
           await (CancelNotebookCellExecution kernel' (uri nb) cellsArr)
             (cancelNotebookCellExecution c kernel' (uri nb) cellsArr)
       | None \<Rightarrow> ret ())))"

text \<open>
  A call to an asynchronous method whose promise is neither awaited nor returned. The
  callee runs up to its first suspension before the caller goes on, so the calls it makes
  until then are made. What an awaited collaborator does to the world comes when its
  promise settles, and the caller does not wait for that: it goes on in the world of the
  call, and however the dropped promise settles, and the world it settles in, are lost
  to it. This is the reading of a callee whose synchronous calls leave the world as it is
  and whose only \<^verbatim>\<open>await\<close> is its last statement, as in \<open>cancelNotebookCellHandles\<close>:
  all its calls are made, and none has taken effect.
\<close>

definition not_awaited :: "'a task \<Rightarrow> unit task" where
  "not_awaited m w = (case m w of (dropped, ev, settled) \<Rightarrow> (Inr (), ev, w))"

text \<open>
  \<^verbatim>\<open>cancelNotebookCells\<close> (lines 106-108): its body is the bare call
  \<^verbatim>\<open>this.cancelNotebookCellHandles(...)\<close>, with no \<^verbatim>\<open>await\<close> and no \<^verbatim>\<open>return\<close>.
\<close>

definition cancelNotebookCells ::
  "collaborators \<Rightarrow> INotebookTextModel \<Rightarrow> NotebookCellTextModel list \<Rightarrow> unit task" where
  "cancelNotebookCells c nb cells =
     then_do (arrayFrom (map handle cells)) (\<lambda>_.
       not_awaited (cancelNotebookCellHandles c nb (map handle cells)))"

subsection \<open>The conditions of the spec's invariant\<close>

text \<open>
  The spec's words (section 3): a dispatched cell is (a) of kind Code, (b) without a live
  execution record, (c) of a language the kernel supports. The loop of the source is
  \<open>eligibleLoop\<close>; this predicate is what the theorems compare it with.
\<close>

definition eligible :: "INotebookKernel \<Rightarrow> world \<Rightarrow> NotebookCellTextModel \<Rightarrow> bool" where
  "eligible k w cell \<longleftrightarrow>
     cellKind cell = Code \<and> liveExecution w (cell_uri cell) = None \<and>
     language cell \<in> set (supportedLanguages k)"

text \<open>A record as \<open>createCellExecution\<close> makes it for kernel \<open>k\<close>.\<close>

definition unconfirmedFor :: "INotebookKernel \<Rightarrow> world \<Rightarrow> exec_ref \<Rightarrow> bool" where
  "unconfirmedFor k w x \<longleftrightarrow>
     state (store w x) = Unconfirmed \<and> controllerId (store w x) = kernel_id k"

text \<open>Lines 33-36: the three calls every \<^verbatim>\<open>executeNotebookCells\<close> starts with.\<close>

definition entry_events :: "NotebookCellTextModel list \<Rightarrow> event list" where
  "entry_events cells =
     [ArrayFrom (map handle cells),
      Debug ''NotebookExecutionService#executeNotebookCells'' (map handle cells),
      RequestWorkspaceTrust notebookRunTrust]"

subsection \<open>A notebook, two kernels and their collaborators\<close>

text \<open>
  The notebook of the spec's scenarios: cells \<open>A\<close> (code, py), \<open>B\<close> (markup) and \<open>C\<close>
  (code, js). The collaborators answer the trust request as told; the source action
  \<open>py\<close> makes \<open>kernelPy\<close> selectable; the picker selects the first matching kernel,
  if there is one; a kernel confirms the first handle it is given and settles as told.
\<close>

definition nbA :: INotebookTextModel where
  "nbA = \<lparr>uri = ''nb''\<rparr>"

definition cellA :: NotebookCellTextModel where
  "cellA = \<lparr>cell_uri = (''nb'', 1), handle = 1, cellKind = Code, language = ''py''\<rparr>"

definition cellB :: NotebookCellTextModel where
  "cellB = \<lparr>cell_uri = (''nb'', 2), handle = 2, cellKind = Markup, language = ''md''\<rparr>"

definition cellC :: NotebookCellTextModel where
  "cellC = \<lparr>cell_uri = (''nb'', 3), handle = 3, cellKind = Code, language = ''js''\<rparr>"

definition kernelPy :: INotebookKernel where
  "kernelPy = \<lparr>kernel_id = ''K'', supportedLanguages = [''py'']\<rparr>"

definition kernelPyJs :: INotebookKernel where
  "kernelPyJs = \<lparr>kernel_id = ''KJ'', supportedLanguages = [''py'', ''js'']\<rparr>"

definition noKernel :: world where
  "noKernel =
     \<lparr>selectedOrSuggested = Map.empty, matchingKernels = (\<lambda>_. []), sourceActions = [],
      executions = Map.empty, store = (\<lambda>_. newExecution [] [] 0), allocated = 0\<rparr>"

definition worldWith :: "INotebookKernel \<Rightarrow> world" where
  "worldWith k = noKernel\<lparr>selectedOrSuggested := [''nb'' \<mapsto> k], matchingKernels := (\<lambda>_. [k])\<rparr>"

definition confirmFirst :: "uri \<Rightarrow> cell_handle list \<Rightarrow> world \<Rightarrow> world" where
  "confirmFirst u hs w =
     (case hs of
        [] \<Rightarrow> w
      | h # _ \<Rightarrow>
          (case executions w (u, h) of
             None \<Rightarrow> w
           | Some r \<Rightarrow> w\<lparr>store := (store w)(r := (store w r)\<lparr>state := Confirmed\<rparr>)\<rparr>))"

definition scenario :: "bool \<Rightarrow> (error + unit) \<Rightarrow> collaborators" where
  "scenario trust settles =
     \<lparr>requestWorkspaceTrust = (\<lambda>_ w. (Inr trust, w)),
      runAction = (\<lambda>a w. (Inr (),
        if a = SourceAction ''py'' then w\<lparr>selectedOrSuggested := [''nb'' \<mapsto> kernelPy]\<rparr> else w)),
      executeCommand = (\<lambda>_ w. (Inr (),
        case matchingKernels w ''nb'' of
          [] \<Rightarrow> w
        | k # _ \<Rightarrow> w\<lparr>selectedOrSuggested := [''nb'' \<mapsto> k]\<rparr>)),
      executeNotebookCellsRequest = (\<lambda>k u hs w. (settles, confirmFirst u hs w)),
      cancelNotebookCellExecution = (\<lambda>k u hs w. (settles, w))\<rparr>"

text \<open>
  The worlds of the scenario in which both code cells are eligible: \<open>kernelPyJs\<close> bound
  to the notebook, then the records of \<open>A\<close> and \<open>C\<close> created, then \<open>A\<close> confirmed by
  the kernel.
\<close>

definition bound :: world where
  "bound = (worldWith kernelPyJs)\<lparr>selectedOrSuggested := [''nb'' \<mapsto> kernelPyJs]\<rparr>"

definition tracked :: world where
  "tracked = bound\<lparr>executions := [(''nb'', 1) \<mapsto> 0, (''nb'', 3) \<mapsto> 1],
     store := (\<lambda>_. newExecution [] [] 0)
       (0 := newExecution ''KJ'' ''nb'' 1, 1 := newExecution ''KJ'' ''nb'' 3),
     allocated := 2\<rparr>"

definition confirmedA :: world where
  "confirmedA = tracked\<lparr>store := (store tracked)(0 := (newExecution ''KJ'' ''nb'' 1)\<lparr>state := Confirmed\<rparr>)\<rparr>"

text \<open>A world with no kernel selected, the given source actions and the given candidates.\<close>

definition offering :: "ISourceAction list \<Rightarrow> INotebookKernel list \<Rightarrow> world" where
  "offering actions candidates =
     noKernel\<lparr>sourceActions := actions, matchingKernels := (\<lambda>_. candidates)\<rparr>"

section \<open>Lemmas\<close>

lemmas demo_defs = nbA_def cellA_def cellB_def cellC_def kernelPy_def kernelPyJs_def noKernel_def
  worldWith_def confirmFirst_def scenario_def

lemmas run_defs = executeNotebookCells_def resolveKernel_def resolveSourceActions_def dispatch_def
  completeUnconfirmed_def then_do_def await_def ret_def arrayFrom_def debug_def
  getSelectedOrSuggestedKernel_def getMatchingKernel_def getSourceActions_def
  selectKernelForNotebook_def getCellExecution_def createCellExecution_def complete_def
  liveExecution_def newExecution_def completed_def exe_state_def Let_def

lemma then_do_Inr:
  "m w = (Inr a, ev, w') \<Longrightarrow>
   then_do m f w = (case f a w' of (r, ev', w'') \<Rightarrow> (r, ev @ ev', w''))"
  by (simp add: then_do_def)

lemma then_do_Inl: "m w = (Inl e, ev, w') \<Longrightarrow> then_do m f w = (Inl e, ev, w')"
  by (simp add: then_do_def)

lemma then_do_arrayFrom:
  "then_do (arrayFrom hs) f w = (case f () w of (r, ev, w') \<Rightarrow> (r, ArrayFrom hs # ev, w'))"
  by (simp add: then_do_def arrayFrom_def)

lemma then_do_debug:
  "then_do (debug msg hs) f w = (case f () w of (r, ev, w') \<Rightarrow> (r, Debug msg hs # ev, w'))"
  by (simp add: then_do_def debug_def)

lemma then_do_await:
  "then_do (await e call) f w =
     (case call w of
        (Inl x, w') \<Rightarrow> (Inl x, [e], w')
      | (Inr a, w') \<Rightarrow> (case f a w' of (r, ev, w'') \<Rightarrow> (r, e # ev, w'')))"
  by (simp add: then_do_def await_def split: prod.splits sum.splits)

lemma eligibleLoop_eq:
  "eligibleLoop k cells acc w =
     (Inr (acc @ filter (eligible k w) cells), map (\<lambda>c. GetCellExecution (cell_uri c)) cells, w)"
proof (induction cells arbitrary: acc)
  case Nil
  show ?case by (simp add: ret_def)
next
  case (Cons cell rest)
  show ?case
    by (simp add: then_do_def getCellExecution_def Cons.IH eligible_def)
qed

lemma executeNotebookCells_dispatch:
  assumes trust: "requestWorkspaceTrust c notebookRunTrust w0 = (Inr True, w1)"
    and kernel: "resolveKernel c nb w1 = (Inr (Some k), ev, w2)"
  shows "executeNotebookCells c nb cells w0 =
    (case dispatch c nb k (filter (eligible k w2) cells) w2 of
       (r, ev', w) \<Rightarrow>
         (r, entry_events cells @ ev @ map (\<lambda>c. GetCellExecution (cell_uri c)) cells @ ev', w))"
proof -
  let ?after = "\<lambda>kernel'. case kernel' of
       None \<Rightarrow> ret ()
     | Some kernel' \<Rightarrow>
         then_do (eligibleLoop kernel' cells []) (\<lambda>executeCells.
           dispatch c nb kernel' executeCells)"
  have filtered: "?after (Some k) w2 =
      (case dispatch c nb k (filter (eligible k w2) cells) w2 of
         (r, ev', w) \<Rightarrow> (r, map (\<lambda>c. GetCellExecution (cell_uri c)) cells @ ev', w))"
    by (simp add: then_do_Inr [where m = "eligibleLoop k cells []", OF eligibleLoop_eq])
  have resolved: "then_do (resolveKernel c nb) ?after w1 =
      (case ?after (Some k) w2 of (r, ev', w) \<Rightarrow> (r, ev @ ev', w))"
    by (rule then_do_Inr [where m = "resolveKernel c nb", OF kernel])
  have "executeNotebookCells c nb cells w0 =
      (case then_do (resolveKernel c nb) ?after w1 of
         (r, ev', w) \<Rightarrow> (r, entry_events cells @ ev', w))"
    using trust
    by (simp add: executeNotebookCells_def then_do_arrayFrom then_do_debug then_do_await
        entry_events_def split: prod.splits)
  then show ?thesis
    unfolding resolved filtered by (simp split: prod.splits)
qed

lemma createExecutions_events:
  "\<exists>exes w'. createExecutions k nb ex w =
     (Inr exes, map (\<lambda>cell. CreateCellExecution (kernel_id k) (uri nb) (handle cell)) ex, w')
     \<and> length exes = length ex"
proof (induction ex arbitrary: w)
  case Nil
  show ?case by (simp add: ret_def)
next
  case (Cons cell rest)
  have "\<exists>r w1. createCellExecution (kernel_id k) (uri nb) (handle cell) w =
      (Inr r, [CreateCellExecution (kernel_id k) (uri nb) (handle cell)], w1)"
    by (cases "liveExecution w (uri nb, handle cell)") (simp_all add: createCellExecution_def Let_def)
  then obtain r w1 where c1: "createCellExecution (kernel_id k) (uri nb) (handle cell) w =
      (Inr r, [CreateCellExecution (kernel_id k) (uri nb) (handle cell)], w1)"
    by blast
  from Cons.IH [of w1] obtain exes w' where
    c2: "createExecutions k nb rest w1 =
      (Inr exes, map (\<lambda>cell. CreateCellExecution (kernel_id k) (uri nb) (handle cell)) rest, w')"
    and len: "length exes = length rest"
    by blast
  show ?case
    by (simp add: then_do_def c1 c2 ret_def len)
qed

lemma completed_idem: "completed res (completed res x) = completed res x"
  by (simp add: completed_def)

lemma completeAll_eq:
  "completeAll rs w =
     (Inr (), map (\<lambda>r. Complete r []) rs,
      w\<lparr>store := (\<lambda>r. if r \<in> set rs then completed [] (store w r) else store w r)\<rparr>)"
proof (induction rs arbitrary: w)
  case Nil
  show ?case by (simp add: ret_def)
next
  case (Cons x rs)
  show ?case
    by (simp add: then_do_def complete_def Cons.IH)
      (rule world.equality; auto simp: fun_eq_iff completed_idem)
qed

lemma completeUnconfirmed_eq:
  "completeUnconfirmed exes w =
     (Inr (),
      (if filter (\<lambda>exe. state (store w exe) = Unconfirmed) exes = [] then []
       else Debug ''NotebookExecutionService#executeNotebookCells completing unconfirmed executions''
              (map (\<lambda>exe. cellHandle (store w exe))
                 (filter (\<lambda>exe. state (store w exe) = Unconfirmed) exes)) #
            map (\<lambda>r. Complete r []) (filter (\<lambda>exe. state (store w exe) = Unconfirmed) exes)),
      w\<lparr>store := (\<lambda>r. if r \<in> set exes \<and> state (store w r) = Unconfirmed
                      then completed [] (store w r) else store w r)\<rparr>)"
proof (cases "filter (\<lambda>exe. state (store w exe) = Unconfirmed) exes = []")
  case True
  then have "w\<lparr>store := (\<lambda>r. if r \<in> set exes \<and> state (store w r) = Unconfirmed
                   then completed [] (store w r) else store w r)\<rparr> = w"
    by (intro world.equality) (auto simp: fun_eq_iff filter_empty_conv)
  with True show ?thesis
    by (simp add: completeUnconfirmed_def exe_state_def ret_def)
next
  case False
  then show ?thesis
    by (simp add: completeUnconfirmed_def exe_state_def then_do_debug completeAll_eq Let_def)
qed

lemma resolveKernel_events:
  "resolveKernel c nb w = (r, ev, w') \<Longrightarrow>
   set ev \<subseteq> {GetSelectedOrSuggestedKernel (uri nb), GetMatchingKernel (uri nb),
              GetSourceActions, ExecuteCommand SELECT_KERNEL_ID} \<union> range RunAction"
  by (auto simp: resolveKernel_def resolveSourceActions_def then_do_def await_def ret_def
      getSelectedOrSuggestedKernel_def getMatchingKernel_def getSourceActions_def
      split: prod.splits sum.splits if_splits option.splits)

lemma dispatch_empty: "dispatch c nb k [] w = (Inr (), [], w)"
  by (simp add: dispatch_def ret_def)

lemma dispatch_nonempty:
  assumes nonempty: "ex \<noteq> []"
    and created: "createExecutions k nb ex
        (w2\<lparr>selectedOrSuggested := (selectedOrSuggested w2)(uri nb \<mapsto> k)\<rparr>) = (Inr exes, ev3, w3)"
    and executed: "executeNotebookCellsRequest c k (uri nb) (map handle ex) w3 = (res, w4)"
  shows "dispatch c nb k ex w2 =
    (case res of
       Inl e \<Rightarrow>
         (Inl e, SelectKernelForNotebook k (uri nb) # ev3 @
                 [ExecuteNotebookCellsRequest k (uri nb) (map handle ex)], w4)
     | Inr _ \<Rightarrow>
         (case completeUnconfirmed exes w4 of
            (r, ev5, w5) \<Rightarrow>
              (r, SelectKernelForNotebook k (uri nb) # ev3 @
                  ExecuteNotebookCellsRequest k (uri nb) (map handle ex) # ev5, w5)))"
  using nonempty
  by (simp add: dispatch_def then_do_def selectKernelForNotebook_def created await_def executed
      split: sum.splits prod.splits)

lemma dispatch_request:
  assumes run: "dispatch c nb k ex w2 = (r, ev, w)"
    and sent: "ExecuteNotebookCellsRequest k' u hs \<in> set ev"
  shows "k' = k \<and> u = uri nb \<and> hs = map handle ex"
proof (cases "ex = []")
  case True
  with run sent show ?thesis by (simp add: dispatch_empty)
next
  case False
  obtain exes w3 where created: "createExecutions k nb ex
      (w2\<lparr>selectedOrSuggested := (selectedOrSuggested w2)(uri nb \<mapsto> k)\<rparr>) =
      (Inr exes, map (\<lambda>cell. CreateCellExecution (kernel_id k) (uri nb) (handle cell)) ex, w3)"
    using createExecutions_events by blast
  obtain res w4 where executed:
    "executeNotebookCellsRequest c k (uri nb) (map handle ex) w3 = (res, w4)"
    by (cases "executeNotebookCellsRequest c k (uri nb) (map handle ex) w3")
  from run sent show ?thesis
    unfolding dispatch_nonempty [OF False created executed] completeUnconfirmed_eq
    by (auto split: sum.splits if_splits)
qed

lemma demo_run:
  "executeNotebookCells (scenario True (Inr ())) nbA [cellA, cellB, cellC] (worldWith kernelPy) =
     (Inr (),
      entry_events [cellA, cellB, cellC] @
      [GetSelectedOrSuggestedKernel ''nb'',
       GetCellExecution (''nb'', 1), GetCellExecution (''nb'', 2), GetCellExecution (''nb'', 3),
       SelectKernelForNotebook kernelPy ''nb'',
       CreateCellExecution ''K'' ''nb'' 1,
       ExecuteNotebookCellsRequest kernelPy ''nb'' [1]],
      (worldWith kernelPy)\<lparr>executions := [(''nb'', 1) \<mapsto> 0],
         store := (\<lambda>_. newExecution [] [] 0)(0 := (newExecution ''K'' ''nb'' 1)\<lparr>state := Confirmed\<rparr>),
         allocated := 1\<rparr>)"
  by (simp add: run_defs demo_defs entry_events_def notebookRunTrust_def)

lemma executeNotebookCells_trusted:
  assumes trust: "requestWorkspaceTrust c notebookRunTrust w0 = (Inr True, w1)"
  shows "executeNotebookCells c nb cells w0 =
    (case then_do (resolveKernel c nb) (\<lambda>kernel'. case kernel' of
            None \<Rightarrow> ret ()
          | Some kernel' \<Rightarrow>
              then_do (eligibleLoop kernel' cells []) (\<lambda>executeCells.
                dispatch c nb kernel' executeCells)) w1 of
       (r, ev', w) \<Rightarrow> (r, entry_events cells @ ev', w))"
  using trust
  by (simp add: executeNotebookCells_def then_do_arrayFrom then_do_debug then_do_await
      entry_events_def split: prod.splits)

lemma executeNotebookCells_unresolved:
  assumes trust: "requestWorkspaceTrust c notebookRunTrust w0 = (Inr True, w1)"
    and kernel: "resolveKernel c nb w1 = (Inr None, ev, w2)"
  shows "executeNotebookCells c nb cells w0 = (Inr (), entry_events cells @ ev, w2)"
  by (simp add: executeNotebookCells_trusted [OF trust]
      then_do_Inr [where m = "resolveKernel c nb", OF kernel] ret_def)

lemma executeNotebookCells_resolve_rejected:
  assumes trust: "requestWorkspaceTrust c notebookRunTrust w0 = (Inr True, w1)"
    and kernel: "resolveKernel c nb w1 = (Inl e, ev, w2)"
  shows "executeNotebookCells c nb cells w0 = (Inl e, entry_events cells @ ev, w2)"
  by (simp add: executeNotebookCells_trusted [OF trust]
      then_do_Inl [where m = "resolveKernel c nb", OF kernel])

lemma executeNotebookCells_not_trusted:
  assumes "requestWorkspaceTrust c notebookRunTrust w0 = (rt, w1)" and "rt \<noteq> Inr True"
  shows "executeNotebookCells c nb cells w0 =
    ((case rt of Inl e \<Rightarrow> Inl e | Inr _ \<Rightarrow> Inr ()), entry_events cells, w1)"
  using assms
  by (auto simp: executeNotebookCells_def then_do_arrayFrom then_do_debug then_do_await
      entry_events_def ret_def split: sum.splits)

lemma dispatch_events:
  assumes run: "dispatch c nb k ex w2 = (r, ev, w)"
  shows "set ev \<subseteq> range (SelectKernelForNotebook k) \<union>
    {e. \<exists>h. e = CreateCellExecution (kernel_id k) (uri nb) h} \<union>
    {ExecuteNotebookCellsRequest k (uri nb) (map handle ex)} \<union>
    {e. \<exists>x. e = Complete x []} \<union> {e. \<exists>m hs. e = Debug m hs}"
proof (cases "ex = []")
  case True
  with run show ?thesis by (simp add: dispatch_empty)
next
  case False
  obtain exes w3 where created: "createExecutions k nb ex
      (w2\<lparr>selectedOrSuggested := (selectedOrSuggested w2)(uri nb \<mapsto> k)\<rparr>) =
      (Inr exes, map (\<lambda>cell. CreateCellExecution (kernel_id k) (uri nb) (handle cell)) ex, w3)"
    using createExecutions_events by blast
  obtain res w4 where executed:
    "executeNotebookCellsRequest c k (uri nb) (map handle ex) w3 = (res, w4)"
    by (cases "executeNotebookCellsRequest c k (uri nb) (map handle ex) w3")
  from run show ?thesis
    unfolding dispatch_nonempty [OF False created executed] completeUnconfirmed_eq
    by (auto split: sum.splits if_splits)
qed

lemma executeNotebookCells_events:
  assumes run: "executeNotebookCells c nb cells w0 = (r, evs, w)"
  shows "\<exists>rest. evs = ArrayFrom (map handle cells) # rest \<and> (\<forall>hs. ArrayFrom hs \<notin> set rest)"
proof -
  obtain rt w1 where t: "requestWorkspaceTrust c notebookRunTrust w0 = (rt, w1)"
    by (cases "requestWorkspaceTrust c notebookRunTrust w0")
  show ?thesis
  proof (cases "rt = Inr True")
    case False
    from run show ?thesis
      by (auto simp: executeNotebookCells_not_trusted [OF t False] entry_events_def)
  next
    case True
    with t have trust: "requestWorkspaceTrust c notebookRunTrust w0 = (Inr True, w1)"
      by simp
    obtain rk ev w2 where kernel: "resolveKernel c nb w1 = (rk, ev, w2)"
      by (cases "resolveKernel c nb w1")
    from resolveKernel_events [OF kernel] have ev: "\<forall>hs. ArrayFrom hs \<notin> set ev"
      by auto
    show ?thesis
    proof (cases rk)
      case (Inl e)
      from run ev show ?thesis
        by (auto simp: executeNotebookCells_resolve_rejected [OF trust kernel [unfolded Inl]]
            entry_events_def)
    next
      case (Inr ko)
      show ?thesis
      proof (cases ko)
        case None
        from run ev show ?thesis
          by (auto simp: executeNotebookCells_unresolved [OF trust kernel [unfolded Inr None]]
              entry_events_def)
      next
        case (Some k)
        obtain r' ev' w' where
          d: "dispatch c nb k (filter (eligible k w2) cells) w2 = (r', ev', w')"
          by (cases "dispatch c nb k (filter (eligible k w2) cells) w2")
        from dispatch_events [OF d] have "\<forall>hs. ArrayFrom hs \<notin> set ev'"
          by auto
        with run ev show ?thesis
          by (auto simp: executeNotebookCells_dispatch [OF trust kernel [unfolded Inr Some]] d
              entry_events_def)
      qed
    qed
  qed
qed

lemma createCellExecution_cases:
  "createCellExecution kid nbu h w =
     (Inr x, ev, w') \<Longrightarrow>
   (liveExecution w (nbu, h) = Some x \<and> w' = w) \<or>
   (liveExecution w (nbu, h) = None \<and> x = allocated w \<and>
    w' = w\<lparr>executions := (executions w)((nbu, h) \<mapsto> x),
           store := (store w)(x := newExecution kid nbu h), allocated := Suc x\<rparr>)"
  by (cases "liveExecution w (nbu, h)") (auto simp: createCellExecution_def Let_def)

lemma createCellExecution_fresh:
  assumes run: "createCellExecution (kernel_id k) nbu h w = (Inr x, ev, w')"
  shows "(\<forall>y. unconfirmedFor k w y \<longrightarrow> unconfirmedFor k w' y) \<and>
    (\<forall>key y. liveExecution w' key = Some y \<longrightarrow>
       liveExecution w key = Some y \<or> unconfirmedFor k w' y) \<and>
    (liveExecution w (nbu, h) = Some x \<or> unconfirmedFor k w' x)"
  using createCellExecution_cases [OF run]
  by (auto simp: unconfirmedFor_def liveExecution_def newExecution_def
      split: option.splits if_splits)

lemma createExecutions_fresh:
  assumes run: "createExecutions k nb ex w = (Inr exes, ev, w')"
    and sub: "set ex \<subseteq> set cells0"
    and inv: "\<forall>cell \<in> set cells0. \<forall>y.
      liveExecution w (uri nb, handle cell) = Some y \<longrightarrow> unconfirmedFor k w y"
  shows "(\<forall>cell \<in> set cells0. \<forall>y.
      liveExecution w' (uri nb, handle cell) = Some y \<longrightarrow> unconfirmedFor k w' y) \<and>
    (\<forall>x \<in> set exes. unconfirmedFor k w' x) \<and>
    (\<forall>y. unconfirmedFor k w y \<longrightarrow> unconfirmedFor k w' y)"
  using run sub inv
proof (induction ex arbitrary: w exes ev w')
  case Nil
  then show ?case by (simp add: ret_def)
next
  case (Cons cell rest)
  obtain x ev1 w1 where c1:
    "createCellExecution (kernel_id k) (uri nb) (handle cell) w = (Inr x, ev1, w1)"
    by (cases "liveExecution w (uri nb, handle cell)")
      (auto simp: createCellExecution_def Let_def)
  obtain exes' w2 where c2: "createExecutions k nb rest w1 =
      (Inr exes', map (\<lambda>cell. CreateCellExecution (kernel_id k) (uri nb) (handle cell)) rest, w2)"
    using createExecutions_events by blast
  from Cons.prems(1) have res: "exes = x # exes'" "w' = w2"
    by (simp_all add: then_do_def c1 c2 ret_def)
  note f = createCellExecution_fresh [OF c1]
  from Cons.prems(2) have cell: "cell \<in> set cells0" and rest: "set rest \<subseteq> set cells0"
    by simp_all
  have inv1: "\<forall>cell \<in> set cells0. \<forall>y.
      liveExecution w1 (uri nb, handle cell) = Some y \<longrightarrow> unconfirmedFor k w1 y"
    using f Cons.prems(3) by blast
  have x1: "unconfirmedFor k w1 x"
    using f Cons.prems(3) cell by blast
  note ih = Cons.IH [OF c2 rest inv1]
  from ih x1 f show ?case
    by (auto simp: res)
qed



lemma created_unconfirmed:
  assumes created: "createExecutions k nb (filter (eligible k w2) cells)
        (w2\<lparr>selectedOrSuggested := (selectedOrSuggested w2)(uri nb \<mapsto> k)\<rparr>) = (Inr exes, ev3, w3)"
    and uris: "\<forall>cell \<in> set cells. cell_uri cell = (uri nb, handle cell)"
  shows "\<forall>x \<in> set exes. unconfirmedFor k w3 x"
proof -
  have "\<forall>cell \<in> set (filter (eligible k w2) cells). \<forall>y.
      liveExecution (w2\<lparr>selectedOrSuggested := (selectedOrSuggested w2)(uri nb \<mapsto> k)\<rparr>)
        (uri nb, handle cell) = Some y \<longrightarrow>
      unconfirmedFor k (w2\<lparr>selectedOrSuggested := (selectedOrSuggested w2)(uri nb \<mapsto> k)\<rparr>) y"
    using uris by (auto simp: eligible_def liveExecution_def split: option.splits if_splits)
  from createExecutions_fresh [OF created subset_refl this] show ?thesis
    by blast
qed

lemma demo_trust: "requestWorkspaceTrust (scenario True s) notebookRunTrust w = (Inr True, w)"
  by (simp add: scenario_def)

lemma demo_kernel:
  "resolveKernel (scenario t s) nbA (worldWith k) =
     (Inr (Some k), [GetSelectedOrSuggestedKernel ''nb''], worldWith k)"
  by (simp add: run_defs demo_defs)

lemma demo_eligible:
  "filter (eligible kernelPyJs (worldWith kernelPyJs)) [cellA, cellB, cellC] = [cellA, cellC]"
  by (simp add: eligible_def liveExecution_def demo_defs)

lemma demo_created:
  "createExecutions kernelPyJs nbA (filter (eligible kernelPyJs (worldWith kernelPyJs)) [cellA, cellB, cellC])
     ((worldWith kernelPyJs)\<lparr>selectedOrSuggested :=
        (selectedOrSuggested (worldWith kernelPyJs))(uri nbA \<mapsto> kernelPyJs)\<rparr>) =
     (Inr [0, 1], [CreateCellExecution ''KJ'' ''nb'' 1, CreateCellExecution ''KJ'' ''nb'' 3], tracked)"
  by (simp only: demo_eligible)
    (simp add: run_defs demo_defs tracked_def bound_def)

lemma demo_executed:
  "executeNotebookCellsRequest (scenario t s) kernelPyJs (uri nbA)
     (map handle (filter (eligible kernelPyJs (worldWith kernelPyJs)) [cellA, cellB, cellC])) tracked =
     (s, confirmedA)"
  by (simp only: demo_eligible)
    (simp add: demo_defs tracked_def bound_def confirmedA_def newExecution_def fun_eq_iff)

lemma demo_uris: "\<forall>cell \<in> set [cellA, cellB, cellC]. cell_uri cell = (uri nbA, handle cell)"
  by (simp add: demo_defs)

lemma demo_states:
  "state (store confirmedA 0) = Confirmed" "state (store confirmedA 1) = Unconfirmed"
  "store confirmedA 1 = store tracked 1"
  by (simp_all add: confirmedA_def tracked_def newExecution_def)

lemma demo_actions:
  "runAction (scenario t s) (SourceAction ''py'') (offering [SourceAction ''py''] []) =
     (Inr (), (offering [SourceAction ''py''] [])\<lparr>selectedOrSuggested := [''nb'' \<mapsto> kernelPy]\<rparr>)"
  "runAction (scenario t s) (SourceAction ''r'') (offering [SourceAction ''r''] []) =
     (Inr (), offering [SourceAction ''r''] [])"
  "executeCommand (scenario t s) SELECT_KERNEL_ID (offering actions []) =
     (Inr (), offering actions [])"
  "executeCommand (scenario t s) SELECT_KERNEL_ID (offering [] [kernelPy, kernelPyJs]) =
     (Inr (), (offering [] [kernelPy, kernelPyJs])\<lparr>selectedOrSuggested := [''nb'' \<mapsto> kernelPy]\<rparr>)"
  by (simp_all add: scenario_def offering_def noKernel_def)

lemma demo_offering:
  "selectedOrSuggested (offering actions candidates) (uri nbA) = None"
  "matchingKernels (offering actions candidates) (uri nbA) = candidates"
  "sourceActions (offering actions candidates) = actions"
  by (simp_all add: offering_def noKernel_def)

lemma cancelNotebookCellHandles_eq:
  "cancelNotebookCellHandles c nb hs w =
     (case selectedOrSuggested w (uri nb) of
        None \<Rightarrow>
          (Inr (),
           [ArrayFrom hs, Debug ''NotebookExecutionService#cancelNotebookCellHandles'' hs,
            GetSelectedOrSuggestedKernel (uri nb)], w)
      | Some k \<Rightarrow>
          (case cancelNotebookCellExecution c k (uri nb) hs w of
             (r, w') \<Rightarrow>
               (r, [ArrayFrom hs, Debug ''NotebookExecutionService#cancelNotebookCellHandles'' hs,
                    GetSelectedOrSuggestedKernel (uri nb),
                    CancelNotebookCellExecution k (uri nb) hs], w')))"
  by (simp add: cancelNotebookCellHandles_def then_do_def arrayFrom_def debug_def
      getSelectedOrSuggestedKernel_def await_def ret_def split: option.splits prod.splits)

lemma cancelNotebookCells_eq:
  "cancelNotebookCells c nb cells w =
     (case cancelNotebookCellHandles c nb (map handle cells) w of
        (dropped, ev, settled) \<Rightarrow> (Inr (), ArrayFrom (map handle cells) # ev, w))"
  by (simp add: cancelNotebookCells_def then_do_def arrayFrom_def not_awaited_def
      split: prod.splits)

section \<open>Claims\<close>

text \<open>
  C1: when the trust request returns false, the call ends there. It resolves, its only
  events are the three of its entry (no kernel-registry query, no source action, no
  picker command, no record created, no kernel operation), and the world is the one the
  trust request left.
\<close>

theorem trust_declined:
  assumes "requestWorkspaceTrust c notebookRunTrust w = (Inr False, w')"
  shows "executeNotebookCells c nb cells w = (Inr (), entry_events cells, w')"
  using assms
  by (simp add: executeNotebookCells_def then_do_arrayFrom then_do_debug then_do_await ret_def
      entry_events_def)

theorem trust_declined_witness:
  "requestWorkspaceTrust (scenario False (Inr ())) notebookRunTrust (worldWith kernelPy) =
     (Inr False, worldWith kernelPy) \<and>
   executeNotebookCells (scenario False (Inr ())) nbA [cellA, cellB, cellC] (worldWith kernelPy) =
     (Inr (),
      [ArrayFrom [1, 2, 3],
       Debug ''NotebookExecutionService#executeNotebookCells'' [1, 2, 3],
       RequestWorkspaceTrust notebookRunTrust],
      worldWith kernelPy)"
proof -
  have declined:
    "requestWorkspaceTrust (scenario False (Inr ())) notebookRunTrust (worldWith kernelPy) =
       (Inr False, worldWith kernelPy)"
    by (simp add: scenario_def)
  from trust_declined [OF declined, of nbA "[cellA, cellB, cellC]"] declined
  show ?thesis
    by (simp add: entry_events_def cellA_def cellB_def cellC_def)
qed

text \<open>
  C2: kernel resolution, case by case, with the calls it makes in each.
  (1) A kernel already selected or suggested is the result, and nothing else is asked.
  (2) With none selected, no matching kernel and exactly one source action, that action
  is run and the selection read again: a kernel found then is the result; with none
  found the picker command is run and the selection read once more.
  (3) With none selected and a matching kernel, or no matching kernel and zero or several
  source actions, no source action is run: the picker command is run and the selection
  read again.
  A call whose resolution gives no kernel resolves there, without error; one whose
  resolution gives a kernel goes on to filter and dispatch with that kernel.
\<close>

theorem resolution_order:
  "(selectedOrSuggested w (uri nb) = Some k \<longrightarrow>
      resolveKernel c nb w = (Inr (Some k), [GetSelectedOrSuggestedKernel (uri nb)], w)) \<and>
   (selectedOrSuggested w (uri nb) = None \<longrightarrow> matchingKernels w (uri nb) = [] \<longrightarrow>
    sourceActions w = [a] \<longrightarrow> runAction c a w = (Inr (), wa) \<longrightarrow>
    selectedOrSuggested wa (uri nb) = Some k \<longrightarrow>
      resolveKernel c nb w =
        (Inr (Some k),
         [GetSelectedOrSuggestedKernel (uri nb), GetMatchingKernel (uri nb), GetSourceActions,
          RunAction a, GetSelectedOrSuggestedKernel (uri nb)], wa)) \<and>
   (selectedOrSuggested w (uri nb) = None \<longrightarrow> matchingKernels w (uri nb) = [] \<longrightarrow>
    sourceActions w = [a] \<longrightarrow> runAction c a w = (Inr (), wa) \<longrightarrow>
    selectedOrSuggested wa (uri nb) = None \<longrightarrow>
    executeCommand c SELECT_KERNEL_ID wa = (Inr (), wp) \<longrightarrow>
      resolveKernel c nb w =
        (Inr (selectedOrSuggested wp (uri nb)),
         [GetSelectedOrSuggestedKernel (uri nb), GetMatchingKernel (uri nb), GetSourceActions,
          RunAction a, GetSelectedOrSuggestedKernel (uri nb),
          ExecuteCommand SELECT_KERNEL_ID, GetSelectedOrSuggestedKernel (uri nb)], wp)) \<and>
   (selectedOrSuggested w (uri nb) = None \<longrightarrow> matchingKernels w (uri nb) \<noteq> [] \<longrightarrow>
    executeCommand c SELECT_KERNEL_ID w = (Inr (), wp) \<longrightarrow>
      resolveKernel c nb w =
        (Inr (selectedOrSuggested wp (uri nb)),
         [GetSelectedOrSuggestedKernel (uri nb), GetMatchingKernel (uri nb),
          ExecuteCommand SELECT_KERNEL_ID, GetSelectedOrSuggestedKernel (uri nb)], wp)) \<and>
   (selectedOrSuggested w (uri nb) = None \<longrightarrow> matchingKernels w (uri nb) = [] \<longrightarrow>
    length (sourceActions w) \<noteq> 1 \<longrightarrow>
    executeCommand c SELECT_KERNEL_ID w = (Inr (), wp) \<longrightarrow>
      resolveKernel c nb w =
        (Inr (selectedOrSuggested wp (uri nb)),
         [GetSelectedOrSuggestedKernel (uri nb), GetMatchingKernel (uri nb), GetSourceActions,
          ExecuteCommand SELECT_KERNEL_ID, GetSelectedOrSuggestedKernel (uri nb)], wp)) \<and>
   (requestWorkspaceTrust c notebookRunTrust w0 = (Inr True, w) \<longrightarrow>
    resolveKernel c nb w = (Inr None, ev, wn) \<longrightarrow>
      executeNotebookCells c nb cells w0 = (Inr (), entry_events cells @ ev, wn)) \<and>
   (requestWorkspaceTrust c notebookRunTrust w0 = (Inr True, w) \<longrightarrow>
    resolveKernel c nb w = (Inr (Some k), ev, wk) \<longrightarrow>
      executeNotebookCells c nb cells w0 =
        (case dispatch c nb k (filter (eligible k wk) cells) wk of
           (r, ev', w') \<Rightarrow>
             (r, entry_events cells @ ev @
                 map (\<lambda>cell. GetCellExecution (cell_uri cell)) cells @ ev', w')))"
proof (intro conjI impI)
  assume "selectedOrSuggested w (uri nb) = Some k"
  then show "resolveKernel c nb w = (Inr (Some k), [GetSelectedOrSuggestedKernel (uri nb)], w)"
    by (simp add: resolveKernel_def then_do_def getSelectedOrSuggestedKernel_def ret_def)
next
  assume "selectedOrSuggested w (uri nb) = None" "matchingKernels w (uri nb) = []"
    "sourceActions w = [a]" "runAction c a w = (Inr (), wa)"
    "selectedOrSuggested wa (uri nb) = Some k"
  then show "resolveKernel c nb w =
        (Inr (Some k),
         [GetSelectedOrSuggestedKernel (uri nb), GetMatchingKernel (uri nb), GetSourceActions,
          RunAction a, GetSelectedOrSuggestedKernel (uri nb)], wa)"
    by (simp add: resolveKernel_def resolveSourceActions_def then_do_def await_def ret_def
        getSelectedOrSuggestedKernel_def getMatchingKernel_def getSourceActions_def)
next
  assume "selectedOrSuggested w (uri nb) = None" "matchingKernels w (uri nb) = []"
    "sourceActions w = [a]" "runAction c a w = (Inr (), wa)"
    "selectedOrSuggested wa (uri nb) = None" "executeCommand c SELECT_KERNEL_ID wa = (Inr (), wp)"
  then show "resolveKernel c nb w =
        (Inr (selectedOrSuggested wp (uri nb)),
         [GetSelectedOrSuggestedKernel (uri nb), GetMatchingKernel (uri nb), GetSourceActions,
          RunAction a, GetSelectedOrSuggestedKernel (uri nb),
          ExecuteCommand SELECT_KERNEL_ID, GetSelectedOrSuggestedKernel (uri nb)], wp)"
    by (simp add: resolveKernel_def resolveSourceActions_def then_do_def await_def ret_def
        getSelectedOrSuggestedKernel_def getMatchingKernel_def getSourceActions_def)
next
  assume "selectedOrSuggested w (uri nb) = None" "matchingKernels w (uri nb) \<noteq> []"
    "executeCommand c SELECT_KERNEL_ID w = (Inr (), wp)"
  then show "resolveKernel c nb w =
        (Inr (selectedOrSuggested wp (uri nb)),
         [GetSelectedOrSuggestedKernel (uri nb), GetMatchingKernel (uri nb),
          ExecuteCommand SELECT_KERNEL_ID, GetSelectedOrSuggestedKernel (uri nb)], wp)"
    by (simp add: resolveKernel_def resolveSourceActions_def then_do_def await_def ret_def
        getSelectedOrSuggestedKernel_def getMatchingKernel_def getSourceActions_def)
next
  assume "selectedOrSuggested w (uri nb) = None" "matchingKernels w (uri nb) = []"
    "length (sourceActions w) \<noteq> 1" "executeCommand c SELECT_KERNEL_ID w = (Inr (), wp)"
  then show "resolveKernel c nb w =
        (Inr (selectedOrSuggested wp (uri nb)),
         [GetSelectedOrSuggestedKernel (uri nb), GetMatchingKernel (uri nb), GetSourceActions,
          ExecuteCommand SELECT_KERNEL_ID, GetSelectedOrSuggestedKernel (uri nb)], wp)"
    by (simp add: resolveKernel_def resolveSourceActions_def then_do_def await_def ret_def
        getSelectedOrSuggestedKernel_def getMatchingKernel_def getSourceActions_def)
next
  assume "requestWorkspaceTrust c notebookRunTrust w0 = (Inr True, w)"
    "resolveKernel c nb w = (Inr None, ev, wn)"
  then show "executeNotebookCells c nb cells w0 = (Inr (), entry_events cells @ ev, wn)"
    by (rule executeNotebookCells_unresolved)
next
  assume "requestWorkspaceTrust c notebookRunTrust w0 = (Inr True, w)"
    "resolveKernel c nb w = (Inr (Some k), ev, wk)"
  then show "executeNotebookCells c nb cells w0 =
        (case dispatch c nb k (filter (eligible k wk) cells) wk of
           (r, ev', w') \<Rightarrow>
             (r, entry_events cells @ ev @
                 map (\<lambda>cell. GetCellExecution (cell_uri cell)) cells @ ev', w'))"
    by (rule executeNotebookCells_dispatch)
qed

theorem resolution_order_witness:
  "resolveKernel (scenario True (Inr ())) nbA (worldWith kernelPy) =
     (Inr (Some kernelPy), [GetSelectedOrSuggestedKernel ''nb''], worldWith kernelPy) \<and>
   resolveKernel (scenario True (Inr ())) nbA (offering [SourceAction ''py''] []) =
     (Inr (Some kernelPy),
      [GetSelectedOrSuggestedKernel ''nb'', GetMatchingKernel ''nb'', GetSourceActions,
       RunAction (SourceAction ''py''), GetSelectedOrSuggestedKernel ''nb''],
      (offering [SourceAction ''py''] [])\<lparr>selectedOrSuggested := [''nb'' \<mapsto> kernelPy]\<rparr>) \<and>
   resolveKernel (scenario True (Inr ())) nbA (offering [SourceAction ''r''] []) =
     (Inr None,
      [GetSelectedOrSuggestedKernel ''nb'', GetMatchingKernel ''nb'', GetSourceActions,
       RunAction (SourceAction ''r''), GetSelectedOrSuggestedKernel ''nb'',
       ExecuteCommand SELECT_KERNEL_ID, GetSelectedOrSuggestedKernel ''nb''],
      offering [SourceAction ''r''] []) \<and>
   resolveKernel (scenario True (Inr ())) nbA (offering [] [kernelPy, kernelPyJs]) =
     (Inr (Some kernelPy),
      [GetSelectedOrSuggestedKernel ''nb'', GetMatchingKernel ''nb'',
       ExecuteCommand SELECT_KERNEL_ID, GetSelectedOrSuggestedKernel ''nb''],
      (offering [] [kernelPy, kernelPyJs])\<lparr>selectedOrSuggested := [''nb'' \<mapsto> kernelPy]\<rparr>) \<and>
   resolveKernel (scenario True (Inr ())) nbA (offering [SourceAction ''py'', SourceAction ''r''] []) =
     (Inr None,
      [GetSelectedOrSuggestedKernel ''nb'', GetMatchingKernel ''nb'', GetSourceActions,
       ExecuteCommand SELECT_KERNEL_ID, GetSelectedOrSuggestedKernel ''nb''],
      offering [SourceAction ''py'', SourceAction ''r''] []) \<and>
   executeNotebookCells (scenario True (Inr ())) nbA [cellA]
       (offering [SourceAction ''py'', SourceAction ''r''] []) =
     (Inr (),
      entry_events [cellA] @
      [GetSelectedOrSuggestedKernel ''nb'', GetMatchingKernel ''nb'', GetSourceActions,
       ExecuteCommand SELECT_KERNEL_ID, GetSelectedOrSuggestedKernel ''nb''],
      offering [SourceAction ''py'', SourceAction ''r''] []) \<and>
   executeNotebookCells (scenario True (Inr ())) nbA [cellB] (worldWith kernelPy) =
     (Inr (),
      entry_events [cellB] @ [GetSelectedOrSuggestedKernel ''nb''] @ [GetCellExecution (''nb'', 2)],
      worldWith kernelPy)"
proof -
  let ?c = "scenario True (Inr ())"
  have sel: "selectedOrSuggested (worldWith kernelPy) (uri nbA) = Some kernelPy"
    by (simp add: worldWith_def nbA_def)
  from resolution_order [where w = "worldWith kernelPy" and nb = nbA and k = kernelPy and c = ?c] sel
  have 1: "resolveKernel ?c nbA (worldWith kernelPy) =
     (Inr (Some kernelPy), [GetSelectedOrSuggestedKernel ''nb''], worldWith kernelPy)"
    by (simp add: nbA_def)
  have sel2: "selectedOrSuggested
      ((offering [SourceAction ''py''] [])\<lparr>selectedOrSuggested := [''nb'' \<mapsto> kernelPy]\<rparr>) (uri nbA) =
      Some kernelPy"
    by (simp add: nbA_def)
  from resolution_order [where w = "offering [SourceAction ''py''] []" and nb = nbA
      and k = kernelPy and c = ?c and a = "SourceAction ''py''"
      and wa = "(offering [SourceAction ''py''] [])\<lparr>selectedOrSuggested := [''nb'' \<mapsto> kernelPy]\<rparr>"]
    demo_offering demo_actions(1) sel2
  have 2: "resolveKernel ?c nbA (offering [SourceAction ''py''] []) =
     (Inr (Some kernelPy),
      [GetSelectedOrSuggestedKernel ''nb'', GetMatchingKernel ''nb'', GetSourceActions,
       RunAction (SourceAction ''py''), GetSelectedOrSuggestedKernel ''nb''],
      (offering [SourceAction ''py''] [])\<lparr>selectedOrSuggested := [''nb'' \<mapsto> kernelPy]\<rparr>)"
    by (simp add: nbA_def)
  from resolution_order [where w = "offering [SourceAction ''r''] []" and nb = nbA and c = ?c
      and a = "SourceAction ''r''" and wa = "offering [SourceAction ''r''] []"
      and wp = "offering [SourceAction ''r''] []"]
    demo_offering demo_actions(2,3)
  have 3: "resolveKernel ?c nbA (offering [SourceAction ''r''] []) =
     (Inr None,
      [GetSelectedOrSuggestedKernel ''nb'', GetMatchingKernel ''nb'', GetSourceActions,
       RunAction (SourceAction ''r''), GetSelectedOrSuggestedKernel ''nb'',
       ExecuteCommand SELECT_KERNEL_ID, GetSelectedOrSuggestedKernel ''nb''],
      offering [SourceAction ''r''] [])"
    by (simp add: nbA_def)
  have sel4: "selectedOrSuggested
      ((offering [] [kernelPy, kernelPyJs])\<lparr>selectedOrSuggested := [''nb'' \<mapsto> kernelPy]\<rparr>) (uri nbA) =
      Some kernelPy"
    by (simp add: nbA_def)
  from resolution_order [where w = "offering [] [kernelPy, kernelPyJs]" and nb = nbA and c = ?c
      and wp = "(offering [] [kernelPy, kernelPyJs])\<lparr>selectedOrSuggested := [''nb'' \<mapsto> kernelPy]\<rparr>"]
    demo_offering demo_actions(4) sel4
  have 4: "resolveKernel ?c nbA (offering [] [kernelPy, kernelPyJs]) =
     (Inr (Some kernelPy),
      [GetSelectedOrSuggestedKernel ''nb'', GetMatchingKernel ''nb'',
       ExecuteCommand SELECT_KERNEL_ID, GetSelectedOrSuggestedKernel ''nb''],
      (offering [] [kernelPy, kernelPyJs])\<lparr>selectedOrSuggested := [''nb'' \<mapsto> kernelPy]\<rparr>)"
    by (simp add: nbA_def)
  from resolution_order [where w = "offering [SourceAction ''py'', SourceAction ''r''] []"
      and nb = nbA and c = ?c and wp = "offering [SourceAction ''py'', SourceAction ''r''] []"]
    demo_offering demo_actions(3)
  have 5: "resolveKernel ?c nbA (offering [SourceAction ''py'', SourceAction ''r''] []) =
     (Inr None,
      [GetSelectedOrSuggestedKernel ''nb'', GetMatchingKernel ''nb'', GetSourceActions,
       ExecuteCommand SELECT_KERNEL_ID, GetSelectedOrSuggestedKernel ''nb''],
      offering [SourceAction ''py'', SourceAction ''r''] [])"
    by (simp add: nbA_def)
  from resolution_order [where w = "offering [SourceAction ''py'', SourceAction ''r''] []"
      and nb = nbA and c = ?c and w0 = "offering [SourceAction ''py'', SourceAction ''r''] []"
      and wn = "offering [SourceAction ''py'', SourceAction ''r''] []" and cells = "[cellA]"
      and ev = "[GetSelectedOrSuggestedKernel ''nb'', GetMatchingKernel ''nb'', GetSourceActions,
       ExecuteCommand SELECT_KERNEL_ID, GetSelectedOrSuggestedKernel ''nb'']"]
    demo_trust [of "Inr ()" "offering [SourceAction ''py'', SourceAction ''r''] []"] 5
  have 6: "executeNotebookCells ?c nbA [cellA]
       (offering [SourceAction ''py'', SourceAction ''r''] []) =
     (Inr (),
      entry_events [cellA] @
      [GetSelectedOrSuggestedKernel ''nb'', GetMatchingKernel ''nb'', GetSourceActions,
       ExecuteCommand SELECT_KERNEL_ID, GetSelectedOrSuggestedKernel ''nb''],
      offering [SourceAction ''py'', SourceAction ''r''] [])"
    by blast
  have none: "filter (eligible kernelPy (worldWith kernelPy)) [cellB] = []"
    by (simp add: eligible_def cellB_def)
  from resolution_order [where w = "worldWith kernelPy" and nb = nbA and k = kernelPy and c = ?c
      and w0 = "worldWith kernelPy" and wk = "worldWith kernelPy" and cells = "[cellB]"
      and ev = "[GetSelectedOrSuggestedKernel ''nb'']"]
    demo_trust [of "Inr ()" "worldWith kernelPy"] 1
  have "executeNotebookCells ?c nbA [cellB] (worldWith kernelPy) =
     (case dispatch ?c nbA kernelPy (filter (eligible kernelPy (worldWith kernelPy)) [cellB])
             (worldWith kernelPy) of
        (r, ev', w') \<Rightarrow>
          (r, entry_events [cellB] @ [GetSelectedOrSuggestedKernel ''nb''] @
              map (\<lambda>cell. GetCellExecution (cell_uri cell)) [cellB] @ ev', w'))"
    by blast
  then have 7: "executeNotebookCells ?c nbA [cellB] (worldWith kernelPy) =
     (Inr (),
      entry_events [cellB] @ [GetSelectedOrSuggestedKernel ''nb''] @ [GetCellExecution (''nb'', 2)],
      worldWith kernelPy)"
    unfolding none by (simp add: dispatch_empty cellB_def)
  from 1 2 3 4 5 6 7 show ?thesis
    by blast
qed

text \<open>
  C3: when trust is granted and a kernel \<open>k\<close> is resolved in world \<open>w2\<close>, every
  batch-execute request of the call goes to \<open>k\<close> for this notebook, and its handles are
  exactly those of the requested cells that are eligible in \<open>w2\<close>, the world the loop
  filters in. Where handles identify the requested cells, the handle of a cell that
  fails a condition is not among them.
\<close>

theorem dispatched_handles:
  assumes trust: "requestWorkspaceTrust c notebookRunTrust w0 = (Inr True, w1)"
    and kernel: "resolveKernel c nb w1 = (Inr (Some k), ev, w2)"
    and run: "executeNotebookCells c nb cells w0 = (r, evs, w)"
    and sent: "ExecuteNotebookCellsRequest k' u hs \<in> set evs"
  shows "k' = k \<and> u = uri nb \<and>
    set hs = handle ` {cell \<in> set cells. eligible k w2 cell} \<and>
    (inj_on handle (set cells) \<longrightarrow>
       (\<forall>cell \<in> set cells. \<not> eligible k w2 cell \<longrightarrow> handle cell \<notin> set hs))"
proof -
  obtain r' ev' w' where d: "dispatch c nb k (filter (eligible k w2) cells) w2 = (r', ev', w')"
    by (cases "dispatch c nb k (filter (eligible k w2) cells) w2")
  from run have evs: "evs = entry_events cells @ ev @
      map (\<lambda>c. GetCellExecution (cell_uri c)) cells @ ev'"
    by (simp add: executeNotebookCells_dispatch [OF trust kernel] d)
  from resolveKernel_events [OF kernel] have "ExecuteNotebookCellsRequest k' u hs \<notin> set ev"
    by auto
  with sent have "ExecuteNotebookCellsRequest k' u hs \<in> set ev'"
    by (auto simp: evs entry_events_def)
  from dispatch_request [OF d this]
  have req: "k' = k" "u = uri nb" "hs = map handle (filter (eligible k w2) cells)"
    by simp_all
  have "set hs = handle ` {cell \<in> set cells. eligible k w2 cell}"
    by (simp add: req)
  moreover have "inj_on handle (set cells) \<longrightarrow>
       (\<forall>cell \<in> set cells. \<not> eligible k w2 cell \<longrightarrow> handle cell \<notin> set hs)"
    by (auto simp: req dest: inj_onD)
  ultimately show ?thesis using req by simp
qed

theorem dispatched_handles_witness:
  "ExecuteNotebookCellsRequest kernelPy ''nb'' [1] \<in>
     set (fst (snd (executeNotebookCells (scenario True (Inr ())) nbA [cellA, cellB, cellC]
       (worldWith kernelPy)))) \<and>
   set [1 :: int] = handle ` {cell \<in> set [cellA, cellB, cellC]. eligible kernelPy (worldWith kernelPy) cell} \<and>
   inj_on handle (set [cellA, cellB, cellC]) \<and>
   \<not> eligible kernelPy (worldWith kernelPy) cellB \<and> handle cellB \<notin> set [1 :: int] \<and>
   \<not> eligible kernelPy (worldWith kernelPy) cellC \<and> handle cellC \<notin> set [1 :: int]"
proof -
  let ?c = "scenario True (Inr ())" and ?w = "worldWith kernelPy"
  let ?run = "executeNotebookCells ?c nbA [cellA, cellB, cellC] ?w"
  have trust: "requestWorkspaceTrust ?c notebookRunTrust ?w = (Inr True, ?w)"
    by (simp add: scenario_def)
  have kernel: "resolveKernel ?c nbA ?w =
      (Inr (Some kernelPy), [GetSelectedOrSuggestedKernel ''nb''], ?w)"
    by (simp add: run_defs demo_defs)
  have run: "?run = (fst ?run, fst (snd ?run), snd (snd ?run))"
    by simp
  have sent: "ExecuteNotebookCellsRequest kernelPy ''nb'' [1] \<in> set (fst (snd ?run))"
    by (simp add: demo_run)
  have inj: "inj_on handle (set [cellA, cellB, cellC])"
    by (simp add: cellA_def cellB_def cellC_def)
  have notB: "\<not> eligible kernelPy ?w cellB" and notC: "\<not> eligible kernelPy ?w cellC"
    by (simp_all add: eligible_def cellB_def cellC_def kernelPy_def)
  have hB: "handle cellB \<notin> set [1 :: int]" and hC: "handle cellC \<notin> set [1 :: int]"
    by (simp_all add: cellB_def cellC_def)
  from dispatched_handles [OF trust kernel run sent]
  have eq: "set [1 :: int] =
      handle ` {cell \<in> set [cellA, cellB, cellC]. eligible kernelPy ?w cell}"
    by blast
  from eq sent inj notB notC hB hC show ?thesis
    by blast
qed

text \<open>
  C4: when trust is granted, a kernel is resolved and no requested cell is eligible, the
  call resolves in the world kernel resolution left, \<open>w2\<close>: after resolution it only
  looks the cells' records up. No kernel is bound, no record is created or completed, no
  batch-execute request is made.
\<close>

theorem no_eligible_cell:
  assumes trust: "requestWorkspaceTrust c notebookRunTrust w0 = (Inr True, w1)"
    and kernel: "resolveKernel c nb w1 = (Inr (Some k), ev, w2)"
    and none: "filter (eligible k w2) cells = []"
  shows "\<exists>evs. executeNotebookCells c nb cells w0 = (Inr (), evs, w2) \<and>
    evs = entry_events cells @ ev @ map (\<lambda>cell. GetCellExecution (cell_uri cell)) cells \<and>
    (\<forall>k' u. SelectKernelForNotebook k' u \<notin> set evs) \<and>
    (\<forall>kid u h. CreateCellExecution kid u h \<notin> set evs) \<and>
    (\<forall>k' u hs. ExecuteNotebookCellsRequest k' u hs \<notin> set evs) \<and>
    (\<forall>x res. Complete x res \<notin> set evs)"
proof -
  from resolveKernel_events [OF kernel]
  have "(\<forall>k' u. SelectKernelForNotebook k' u \<notin> set ev) \<and>
    (\<forall>kid u h. CreateCellExecution kid u h \<notin> set ev) \<and>
    (\<forall>k' u hs. ExecuteNotebookCellsRequest k' u hs \<notin> set ev) \<and>
    (\<forall>x res. Complete x res \<notin> set ev)"
    by auto
  then show ?thesis
    by (auto simp: executeNotebookCells_dispatch [OF trust kernel] none dispatch_empty
        entry_events_def)
qed

theorem no_eligible_cell_witness:
  "requestWorkspaceTrust (scenario True (Inr ())) notebookRunTrust (worldWith kernelPy) =
     (Inr True, worldWith kernelPy) \<and>
   resolveKernel (scenario True (Inr ())) nbA (worldWith kernelPy) =
     (Inr (Some kernelPy), [GetSelectedOrSuggestedKernel ''nb''], worldWith kernelPy) \<and>
   filter (eligible kernelPy (worldWith kernelPy)) [cellB, cellC] = [] \<and>
   executeNotebookCells (scenario True (Inr ())) nbA [cellB, cellC] (worldWith kernelPy) =
     (Inr (),
      entry_events [cellB, cellC] @ [GetSelectedOrSuggestedKernel ''nb''] @
      [GetCellExecution (''nb'', 2), GetCellExecution (''nb'', 3)],
      worldWith kernelPy)"
proof -
  have none: "filter (eligible kernelPy (worldWith kernelPy)) [cellB, cellC] = []"
    by (simp add: eligible_def demo_defs)
  from no_eligible_cell [OF demo_trust [of "Inr ()" "worldWith kernelPy"]
      demo_kernel [of True "Inr ()" kernelPy] none]
  have "executeNotebookCells (scenario True (Inr ())) nbA [cellB, cellC] (worldWith kernelPy) =
     (Inr (),
      entry_events [cellB, cellC] @ [GetSelectedOrSuggestedKernel ''nb''] @
      map (\<lambda>cell. GetCellExecution (cell_uri cell)) [cellB, cellC],
      worldWith kernelPy)"
    by blast
  with demo_trust [of "Inr ()" "worldWith kernelPy"] demo_kernel [of True "Inr ()" kernelPy] none
  show ?thesis
    by (simp add: cellB_def cellC_def)
qed




text \<open>
  C6: when a call that created records has completed, the batch-execute request has
  resolved, and the world is the one the kernel left with every created record that was
  still \<open>Unconfirmed\<close> completed with the empty result: no created record is
  \<open>Unconfirmed\<close>, and a record the kernel confirmed or completed is as the kernel
  left it, with no \<open>complete\<close> call on it.
\<close>

theorem unconfirmed_are_completed:
  assumes trust: "requestWorkspaceTrust c notebookRunTrust w0 = (Inr True, w1)"
    and kernel: "resolveKernel c nb w1 = (Inr (Some k), ev, w2)"
    and some: "filter (eligible k w2) cells \<noteq> []"
    and created: "createExecutions k nb (filter (eligible k w2) cells)
        (w2\<lparr>selectedOrSuggested := (selectedOrSuggested w2)(uri nb \<mapsto> k)\<rparr>) = (Inr exes, ev3, w3)"
    and executed: "executeNotebookCellsRequest c k (uri nb)
        (map handle (filter (eligible k w2) cells)) w3 = (res, w4)"
    and run: "executeNotebookCells c nb cells w0 = (Inr (), evs, w)"
  shows "res = Inr () \<and>
    w = w4\<lparr>store := (\<lambda>x. if x \<in> set exes \<and> state (store w4 x) = Unconfirmed
                         then completed [] (store w4 x) else store w4 x)\<rparr> \<and>
    (\<forall>x \<in> set exes. state (store w x) \<noteq> Unconfirmed) \<and>
    (\<forall>x \<in> set exes. state (store w4 x) = Unconfirmed \<longrightarrow>
       Complete x [] \<in> set evs \<and> state (store w x) = Completed \<and> result (store w x) = Some []) \<and>
    (\<forall>x. state (store w4 x) \<noteq> Unconfirmed \<longrightarrow>
       store w x = store w4 x \<and> (\<forall>res. Complete x res \<notin> set evs))"
proof -
  let ?ex = "filter (eligible k w2) cells"
  let ?unc = "filter (\<lambda>exe. state (store w4 exe) = Unconfirmed) exes"
  from createExecutions_events [of k nb ?ex
      "w2\<lparr>selectedOrSuggested := (selectedOrSuggested w2)(uri nb \<mapsto> k)\<rparr>"] created
  have ev3: "\<forall>x res. Complete x res \<notin> set ev3"
    by auto
  from resolveKernel_events [OF kernel] have ev: "\<forall>x res. Complete x res \<notin> set ev"
    by auto
  from run have res: "res = Inr ()"
    by (cases res)
      (simp_all add: executeNotebookCells_dispatch [OF trust kernel]
        dispatch_nonempty [OF some created executed])
  from run have evs: "evs = entry_events cells @ ev @
      map (\<lambda>c. GetCellExecution (cell_uri c)) cells @
      SelectKernelForNotebook k (uri nb) # ev3 @
      ExecuteNotebookCellsRequest k (uri nb) (map handle ?ex) #
      (if ?unc = [] then []
       else Debug ''NotebookExecutionService#executeNotebookCells completing unconfirmed executions''
              (map (\<lambda>exe. cellHandle (store w4 exe)) ?unc) #
            map (\<lambda>r. Complete r []) ?unc)"
    and w: "w = w4\<lparr>store := (\<lambda>x. if x \<in> set exes \<and> state (store w4 x) = Unconfirmed
                         then completed [] (store w4 x) else store w4 x)\<rparr>"
    by (simp_all add: executeNotebookCells_dispatch [OF trust kernel]
        dispatch_nonempty [OF some created executed [unfolded res]] completeUnconfirmed_eq)
  have completes: "Complete x r \<in> set evs \<longleftrightarrow> r = [] \<and> x \<in> set ?unc" for x r
    using ev ev3 by (auto simp: evs entry_events_def filter_empty_conv)
  have "\<forall>x \<in> set exes. state (store w x) \<noteq> Unconfirmed"
    by (simp add: w completed_def)
  moreover have "\<forall>x \<in> set exes. state (store w4 x) = Unconfirmed \<longrightarrow>
       Complete x [] \<in> set evs \<and> state (store w x) = Completed \<and> result (store w x) = Some []"
    by (simp add: w completed_def completes)
  moreover have "\<forall>x. state (store w4 x) \<noteq> Unconfirmed \<longrightarrow>
       store w x = store w4 x \<and> (\<forall>res. Complete x res \<notin> set evs)"
    by (simp add: w completes)
  ultimately show ?thesis
    using res w by blast
qed

theorem unconfirmed_are_completed_witness:
  "executeNotebookCellsRequest (scenario True (Inr ())) kernelPyJs (uri nbA)
     (map handle (filter (eligible kernelPyJs (worldWith kernelPyJs)) [cellA, cellB, cellC])) tracked =
     (Inr (), confirmedA) \<and>
   state (store confirmedA 0) = Confirmed \<and> state (store confirmedA 1) = Unconfirmed \<and>
   fst (executeNotebookCells (scenario True (Inr ())) nbA [cellA, cellB, cellC]
     (worldWith kernelPyJs)) = Inr () \<and>
   Complete 1 [] \<in> set (fst (snd (executeNotebookCells (scenario True (Inr ())) nbA
     [cellA, cellB, cellC] (worldWith kernelPyJs)))) \<and>
   Complete 0 [] \<notin> set (fst (snd (executeNotebookCells (scenario True (Inr ())) nbA
     [cellA, cellB, cellC] (worldWith kernelPyJs)))) \<and>
   store (snd (snd (executeNotebookCells (scenario True (Inr ())) nbA [cellA, cellB, cellC]
     (worldWith kernelPyJs)))) 0 = store confirmedA 0 \<and>
   state (store (snd (snd (executeNotebookCells (scenario True (Inr ())) nbA [cellA, cellB, cellC]
     (worldWith kernelPyJs)))) 1) = Completed \<and>
   result (store (snd (snd (executeNotebookCells (scenario True (Inr ())) nbA [cellA, cellB, cellC]
     (worldWith kernelPyJs)))) 1) = Some []"
proof -
  let ?run = "executeNotebookCells (scenario True (Inr ())) nbA [cellA, cellB, cellC]
     (worldWith kernelPyJs)"
  have some: "filter (eligible kernelPyJs (worldWith kernelPyJs)) [cellA, cellB, cellC] \<noteq> []"
    unfolding demo_eligible by simp
  have resolves: "fst ?run = Inr ()"
    unfolding executeNotebookCells_dispatch [OF demo_trust [of "Inr ()" "worldWith kernelPyJs"]
        demo_kernel [of True "Inr ()" kernelPyJs]]
      dispatch_nonempty [OF some demo_created demo_executed [of True "Inr ()"]]
    by (simp add: completeUnconfirmed_eq)
  then have run: "?run = (Inr (), fst (snd ?run), snd (snd ?run))"
    by (metis prod.collapse)
  note inst = unconfirmed_are_completed [OF demo_trust [of "Inr ()" "worldWith kernelPyJs"]
      demo_kernel [of True "Inr ()" kernelPyJs] some demo_created
      demo_executed [of True "Inr ()"] run]
  from inst have
    unconfirmed: "\<forall>x \<in> set [0, 1]. state (store confirmedA x) = Unconfirmed \<longrightarrow>
       Complete x [] \<in> set (fst (snd ?run)) \<and> state (store (snd (snd ?run)) x) = Completed \<and>
       result (store (snd (snd ?run)) x) = Some []"
    and others: "\<forall>x. state (store confirmedA x) \<noteq> Unconfirmed \<longrightarrow>
       store (snd (snd ?run)) x = store confirmedA x \<and>
       (\<forall>res. Complete x res \<notin> set (fst (snd ?run)))"
    by blast+
  from unconfirmed demo_states(2)
  have c: "Complete 1 [] \<in> set (fst (snd ?run)) \<and> state (store (snd (snd ?run)) 1) = Completed \<and>
      result (store (snd (snd ?run)) 1) = Some []"
    by simp
  from others demo_states(1)
  have a: "store (snd (snd ?run)) 0 = store confirmedA 0 \<and> Complete 0 [] \<notin> set (fst (snd ?run))"
    by simp
  from resolves a c demo_executed [of True "Inr ()"] demo_states show ?thesis
    by blast
qed

text \<open>
  C7: a cancellation materializes its input, logs, and reads the selected-or-suggested
  kernel; with a kernel it makes the one cancel request, and with none it resolves in an
  unchanged world. Those are all its calls, from either entry point: no trust request, no
  matching-kernel query, no source action, no picker command. For
  \<open>cancelNotebookCellHandles\<close>, which awaits the request, the result and the world are
  those the kernel's cancel operation gives; for \<open>cancelNotebookCells\<close>, which does not,
  the statement is about its calls.
\<close>

theorem cancellation_consults_selected_kernel_only:
  "(selectedOrSuggested w (uri nb) = None \<longrightarrow>
      cancelNotebookCellHandles c nb hs w =
        (Inr (),
         [ArrayFrom hs, Debug ''NotebookExecutionService#cancelNotebookCellHandles'' hs,
          GetSelectedOrSuggestedKernel (uri nb)], w) \<and>
      cancelNotebookCells c nb cells w =
        (Inr (),
         [ArrayFrom (map handle cells), ArrayFrom (map handle cells),
          Debug ''NotebookExecutionService#cancelNotebookCellHandles'' (map handle cells),
          GetSelectedOrSuggestedKernel (uri nb)], w)) \<and>
   (selectedOrSuggested w (uri nb) = Some k \<longrightarrow>
    cancelNotebookCellExecution c k (uri nb) hs w = (r, w') \<longrightarrow>
      cancelNotebookCellHandles c nb hs w =
        (r, [ArrayFrom hs, Debug ''NotebookExecutionService#cancelNotebookCellHandles'' hs,
             GetSelectedOrSuggestedKernel (uri nb), CancelNotebookCellExecution k (uri nb) hs],
         w')) \<and>
   (selectedOrSuggested w (uri nb) = Some k \<longrightarrow>
      fst (snd (cancelNotebookCells c nb cells w)) =
        [ArrayFrom (map handle cells), ArrayFrom (map handle cells),
         Debug ''NotebookExecutionService#cancelNotebookCellHandles'' (map handle cells),
         GetSelectedOrSuggestedKernel (uri nb),
         CancelNotebookCellExecution k (uri nb) (map handle cells)])"
  by (simp add: cancelNotebookCells_eq cancelNotebookCellHandles_eq split: prod.splits)

theorem cancellation_consults_selected_kernel_only_witness:
  "selectedOrSuggested noKernel (uri nbA) = None \<and>
   cancelNotebookCellHandles (scenario True (Inr ())) nbA [1, 3] noKernel =
     (Inr (),
      [ArrayFrom [1, 3], Debug ''NotebookExecutionService#cancelNotebookCellHandles'' [1, 3],
       GetSelectedOrSuggestedKernel ''nb''], noKernel) \<and>
   cancelNotebookCells (scenario True (Inr ())) nbA [cellA, cellC] noKernel =
     (Inr (),
      [ArrayFrom [1, 3], ArrayFrom [1, 3],
       Debug ''NotebookExecutionService#cancelNotebookCellHandles'' [1, 3],
       GetSelectedOrSuggestedKernel ''nb''], noKernel) \<and>
   selectedOrSuggested (worldWith kernelPy) (uri nbA) = Some kernelPy \<and>
   cancelNotebookCellHandles (scenario True (Inr ())) nbA [1, 3] (worldWith kernelPy) =
     (Inr (),
      [ArrayFrom [1, 3], Debug ''NotebookExecutionService#cancelNotebookCellHandles'' [1, 3],
       GetSelectedOrSuggestedKernel ''nb'', CancelNotebookCellExecution kernelPy ''nb'' [1, 3]],
      worldWith kernelPy) \<and>
   fst (snd (cancelNotebookCells (scenario True (Inr ())) nbA [cellA, cellC] (worldWith kernelPy))) =
     [ArrayFrom [1, 3], ArrayFrom [1, 3],
      Debug ''NotebookExecutionService#cancelNotebookCellHandles'' [1, 3],
      GetSelectedOrSuggestedKernel ''nb'', CancelNotebookCellExecution kernelPy ''nb'' [1, 3]]"
proof -
  let ?c = "scenario True (Inr ())"
  have none: "selectedOrSuggested noKernel (uri nbA) = None"
    by (simp add: noKernel_def)
  have sel: "selectedOrSuggested (worldWith kernelPy) (uri nbA) = Some kernelPy"
    by (simp add: worldWith_def nbA_def)
  have cancel: "cancelNotebookCellExecution ?c kernelPy (uri nbA) [1, 3] (worldWith kernelPy) =
      (Inr (), worldWith kernelPy)"
    by (simp add: scenario_def)
  from cancellation_consults_selected_kernel_only
    [where w = noKernel and nb = nbA and c = ?c and hs = "[1, 3]" and cells = "[cellA, cellC]"]
    none
  have 1: "cancelNotebookCellHandles ?c nbA [1, 3] noKernel =
     (Inr (),
      [ArrayFrom [1, 3], Debug ''NotebookExecutionService#cancelNotebookCellHandles'' [1, 3],
       GetSelectedOrSuggestedKernel ''nb''], noKernel) \<and>
   cancelNotebookCells ?c nbA [cellA, cellC] noKernel =
     (Inr (),
      [ArrayFrom [1, 3], ArrayFrom [1, 3],
       Debug ''NotebookExecutionService#cancelNotebookCellHandles'' [1, 3],
       GetSelectedOrSuggestedKernel ''nb''], noKernel)"
    by (simp add: nbA_def cellA_def cellC_def)
  from cancellation_consults_selected_kernel_only
    [where w = "worldWith kernelPy" and nb = nbA and c = ?c and hs = "[1, 3]"
      and cells = "[cellA, cellC]" and k = kernelPy and r = "Inr ()" and w' = "worldWith kernelPy"]
    sel cancel
  have 2: "cancelNotebookCellHandles ?c nbA [1, 3] (worldWith kernelPy) =
     (Inr (),
      [ArrayFrom [1, 3], Debug ''NotebookExecutionService#cancelNotebookCellHandles'' [1, 3],
       GetSelectedOrSuggestedKernel ''nb'', CancelNotebookCellExecution kernelPy ''nb'' [1, 3]],
      worldWith kernelPy) \<and>
   fst (snd (cancelNotebookCells ?c nbA [cellA, cellC] (worldWith kernelPy))) =
     [ArrayFrom [1, 3], ArrayFrom [1, 3],
      Debug ''NotebookExecutionService#cancelNotebookCellHandles'' [1, 3],
      GetSelectedOrSuggestedKernel ''nb'', CancelNotebookCellExecution kernelPy ''nb'' [1, 3]]"
    by (simp add: nbA_def cellA_def cellC_def)
  from none sel 1 2 show ?thesis
    by blast
qed

text \<open>
  C8: a kernel whose cancel operation rejects. \<open>cancelNotebookCellHandles\<close> rejects
  with the kernel's error after one cancel request; \<open>cancelNotebookCells\<close>, which
  calls it without \<^verbatim>\<open>await\<close> or \<^verbatim>\<open>return\<close>, resolves.
\<close>

theorem cancelNotebookCells_drops_rejection:
  "cancelNotebookCellExecution (scenario True (Inl (Rejected ''boom''))) kernelPy ''nb'' [1]
     (worldWith kernelPy) = (Inl (Rejected ''boom''), worldWith kernelPy) \<and>
   cancelNotebookCellHandles (scenario True (Inl (Rejected ''boom''))) nbA [1] (worldWith kernelPy) =
     (Inl (Rejected ''boom''),
      [ArrayFrom [1], Debug ''NotebookExecutionService#cancelNotebookCellHandles'' [1],
       GetSelectedOrSuggestedKernel ''nb'', CancelNotebookCellExecution kernelPy ''nb'' [1]],
      worldWith kernelPy) \<and>
   cancelNotebookCells (scenario True (Inl (Rejected ''boom''))) nbA [cellA] (worldWith kernelPy) =
     (Inr (),
      [ArrayFrom [1], ArrayFrom [1],
       Debug ''NotebookExecutionService#cancelNotebookCellHandles'' [1],
       GetSelectedOrSuggestedKernel ''nb'', CancelNotebookCellExecution kernelPy ''nb'' [1]],
      worldWith kernelPy)"
  by (simp add: cancelNotebookCells_eq cancelNotebookCellHandles_eq scenario_def worldWith_def
      nbA_def cellA_def)

text \<open>
  C9: when the batch-execute request rejects, the call rejects with the same error, the
  world is the one the kernel left, and the call has completed no record: a created
  record that is \<open>Unconfirmed\<close> when the kernel returns stays so, and so does one
  the kernel did not touch.
\<close>

theorem request_rejected:
  assumes trust: "requestWorkspaceTrust c notebookRunTrust w0 = (Inr True, w1)"
    and kernel: "resolveKernel c nb w1 = (Inr (Some k), ev, w2)"
    and some: "filter (eligible k w2) cells \<noteq> []"
    and created: "createExecutions k nb (filter (eligible k w2) cells)
        (w2\<lparr>selectedOrSuggested := (selectedOrSuggested w2)(uri nb \<mapsto> k)\<rparr>) = (Inr exes, ev3, w3)"
    and executed: "executeNotebookCellsRequest c k (uri nb)
        (map handle (filter (eligible k w2) cells)) w3 = (Inl e, w4)"
  shows "\<exists>evs w. executeNotebookCells c nb cells w0 = (Inl e, evs, w) \<and> w = w4 \<and>
    (\<forall>x res. Complete x res \<notin> set evs) \<and>
    (\<forall>x \<in> set exes. state (store w4 x) = Unconfirmed \<longrightarrow> state (store w x) = Unconfirmed) \<and>
    ((\<forall>cell \<in> set cells. cell_uri cell = (uri nb, handle cell)) \<longrightarrow>
     (\<forall>x \<in> set exes. store w4 x = store w3 x \<longrightarrow> state (store w x) = Unconfirmed))"
proof -
  have fresh: "(\<forall>cell \<in> set cells. cell_uri cell = (uri nb, handle cell)) \<longrightarrow>
     (\<forall>x \<in> set exes. state (store w3 x) = Unconfirmed)"
    using created_unconfirmed [OF created] by (auto simp: unconfirmedFor_def)
  from createExecutions_events [of k nb "filter (eligible k w2) cells"
      "w2\<lparr>selectedOrSuggested := (selectedOrSuggested w2)(uri nb \<mapsto> k)\<rparr>"] created
  have ev3: "\<forall>x res. Complete x res \<notin> set ev3"
    by auto
  from resolveKernel_events [OF kernel] have ev: "\<forall>x res. Complete x res \<notin> set ev"
    by auto
  from ev ev3 fresh show ?thesis
    by (auto simp: executeNotebookCells_dispatch [OF trust kernel]
        dispatch_nonempty [OF some created executed] entry_events_def)
qed

theorem request_rejected_witness:
  "executeNotebookCellsRequest (scenario True (Inl (Rejected ''boom''))) kernelPyJs (uri nbA)
     (map handle (filter (eligible kernelPyJs (worldWith kernelPyJs)) [cellA, cellB, cellC])) tracked =
     (Inl (Rejected ''boom''), confirmedA) \<and>
   store confirmedA 1 = store tracked 1 \<and>
   (\<exists>evs.
      executeNotebookCells (scenario True (Inl (Rejected ''boom''))) nbA [cellA, cellB, cellC]
        (worldWith kernelPyJs) = (Inl (Rejected ''boom''), evs, confirmedA) \<and>
      Complete 1 [] \<notin> set evs) \<and>
   state (store confirmedA 1) = Unconfirmed"
proof -
  have some: "filter (eligible kernelPyJs (worldWith kernelPyJs)) [cellA, cellB, cellC] \<noteq> []"
    unfolding demo_eligible by simp
  note inst = request_rejected [OF demo_trust [of "Inl (Rejected ''boom'')" "worldWith kernelPyJs"]
      demo_kernel [of True "Inl (Rejected ''boom'')" kernelPyJs] some demo_created
      demo_executed [of True "Inl (Rejected ''boom'')"]]
  from inst obtain evs where
    "executeNotebookCells (scenario True (Inl (Rejected ''boom''))) nbA [cellA, cellB, cellC]
        (worldWith kernelPyJs) = (Inl (Rejected ''boom''), evs, confirmedA)"
    and "\<forall>x res. Complete x res \<notin> set evs"
    by blast
  with demo_executed [of True "Inl (Rejected ''boom'')"] demo_states show ?thesis
    by blast
qed

text \<open>
  C10: the first event of every call is the one materialization of the input, and no
  other event of the call is one; the handles of a batch-execute request are those of
  the eligible cells in the order of the input: the input list filtered, then mapped to
  handles.
\<close>

theorem materialized_once_in_order:
  assumes run: "executeNotebookCells c nb cells w0 = (r, evs, w)"
  shows "(\<exists>rest. evs = ArrayFrom (map handle cells) # rest \<and> (\<forall>hs. ArrayFrom hs \<notin> set rest)) \<and>
    (\<forall>w1 k ev w2 k' u hs.
       requestWorkspaceTrust c notebookRunTrust w0 = (Inr True, w1) \<longrightarrow>
       resolveKernel c nb w1 = (Inr (Some k), ev, w2) \<longrightarrow>
       ExecuteNotebookCellsRequest k' u hs \<in> set evs \<longrightarrow>
       hs = map handle (filter (eligible k w2) cells))"
proof (intro conjI allI impI)
  show "\<exists>rest. evs = ArrayFrom (map handle cells) # rest \<and> (\<forall>hs. ArrayFrom hs \<notin> set rest)"
    by (rule executeNotebookCells_events [OF run])
next
  fix w1 k ev w2 k' u hs
  assume trust: "requestWorkspaceTrust c notebookRunTrust w0 = (Inr True, w1)"
    and kernel: "resolveKernel c nb w1 = (Inr (Some k), ev, w2)"
    and sent: "ExecuteNotebookCellsRequest k' u hs \<in> set evs"
  obtain r' ev' w' where d: "dispatch c nb k (filter (eligible k w2) cells) w2 = (r', ev', w')"
    by (cases "dispatch c nb k (filter (eligible k w2) cells) w2")
  from run have evs: "evs = entry_events cells @ ev @
      map (\<lambda>c. GetCellExecution (cell_uri c)) cells @ ev'"
    by (simp add: executeNotebookCells_dispatch [OF trust kernel] d)
  from resolveKernel_events [OF kernel] have "ExecuteNotebookCellsRequest k' u hs \<notin> set ev"
    by auto
  with sent have "ExecuteNotebookCellsRequest k' u hs \<in> set ev'"
    by (auto simp: evs entry_events_def)
  from dispatch_request [OF d this] show "hs = map handle (filter (eligible k w2) cells)"
    by simp
qed

theorem materialized_once_in_order_witness:
  "ExecuteNotebookCellsRequest kernelPyJs ''nb'' [3, 1] \<in>
     set (fst (snd (executeNotebookCells (scenario True (Inr ())) nbA [cellC, cellB, cellA]
       (worldWith kernelPyJs)))) \<and>
   [3, 1] = map handle (filter (eligible kernelPyJs (worldWith kernelPyJs)) [cellC, cellB, cellA]) \<and>
   (\<exists>rest. fst (snd (executeNotebookCells (scenario True (Inr ())) nbA [cellC, cellB, cellA]
       (worldWith kernelPyJs))) = ArrayFrom [3, 2, 1] # rest \<and> ArrayFrom [3, 2, 1] \<notin> set rest)"
proof -
  let ?c = "scenario True (Inr ())" and ?w = "worldWith kernelPyJs"
  let ?run = "executeNotebookCells ?c nbA [cellC, cellB, cellA] ?w"
  have run: "?run = (fst ?run, fst (snd ?run), snd (snd ?run))"
    by simp
  have sent: "ExecuteNotebookCellsRequest kernelPyJs ''nb'' [3, 1] \<in> set (fst (snd ?run))"
    by (simp add: run_defs demo_defs)
  note inst = materialized_once_in_order [OF run]
  from inst demo_trust [of "Inr ()" ?w] demo_kernel [of True "Inr ()" kernelPyJs] sent
  have order: "[3, 1] = map handle (filter (eligible kernelPyJs ?w) [cellC, cellB, cellA])"
    by blast
  from inst have "\<exists>rest. fst (snd ?run) = ArrayFrom (map handle [cellC, cellB, cellA]) # rest \<and>
      (\<forall>hs. ArrayFrom hs \<notin> set rest)"
    by blast
  then have once: "\<exists>rest. fst (snd ?run) = ArrayFrom [3, 2, 1] # rest \<and>
      ArrayFrom [3, 2, 1] \<notin> set rest"
    by (auto simp: cellA_def cellB_def cellC_def)
  from sent order once show ?thesis
    by blast
qed

end
